theory Spec2Isabelle
  imports Complex_Main
begin

section \<open>Python values used by the mock HTTP server\<close>

text \<open>
  A Python \<open>str\<close> is a sequence of Unicode code points and \<open>len\<close>, slicing and
  comparison work on code points, so a \<open>str\<close> is a list of code points here. A
  \<open>bytes\<close> value is a list of numbers below 256. \<open>S\<close> turns a string literal of the
  source into that representation.
\<close>

type_synonym pystr = "nat list"
type_synonym pybytes = "nat list"

definition S :: "string \<Rightarrow> pystr" where
  "S cs = map of_char cs"

text \<open>
  A Python \<open>float\<close>: every finite double is a rational number, so the finite values
  are rationals (the sign of zero is not kept); comparisons with NaN are false, as IEEE 754
  has them.
\<close>

datatype pyfloat = Fin rat | PInf | NInf | NaN

fun float_lt :: "pyfloat \<Rightarrow> pyfloat \<Rightarrow> bool" where
  "float_lt NaN _ = False"
| "float_lt _ NaN = False"
| "float_lt (Fin a) (Fin b) = (a < b)"
| "float_lt (Fin a) PInf = True"
| "float_lt (Fin a) NInf = False"
| "float_lt PInf _ = False"
| "float_lt NInf (Fin b) = True"
| "float_lt NInf PInf = True"
| "float_lt NInf NInf = False"

definition float_gt :: "pyfloat \<Rightarrow> pyfloat \<Rightarrow> bool" where
  "float_gt a b = float_lt b a"

text \<open>
  The exceptions the server can meet, each with the text \<open>str(e)\<close> gives.
  \<open>UnicodeEncodeError\<close> and \<open>UnicodeDecodeError\<close> are subclasses of \<open>ValueError\<close>, so
  an \<open>except ValueError\<close> clause catches all three.
\<close>

datatype py_error =
    ValueError pystr
  | UnicodeEncodeError pystr
  | UnicodeDecodeError pystr
  | OverflowError
  | IndexError
  | TypeError

text \<open>What \<open>except ValueError as e\<close> does with an exception: \<open>Some (str(e))\<close> when the
  clause catches it, \<open>None\<close> when the exception passes through.\<close>

fun caught_ValueError :: "py_error \<Rightarrow> pystr option" where
  "caught_ValueError (ValueError m) = Some m"
| "caught_ValueError (UnicodeEncodeError m) = Some m"
| "caught_ValueError (UnicodeDecodeError m) = Some m"
| "caught_ValueError OverflowError = None"
| "caught_ValueError IndexError = None"
| "caught_ValueError TypeError = None"

subsection \<open>Decimal and hexadecimal text\<close>

function str_of_nat :: "nat \<Rightarrow> pystr" where
  "str_of_nat n = (if n < 10 then [48 + n] else str_of_nat (n div 10) @ [48 + n mod 10])"
  by pat_completeness auto
termination
  by (relation "measure id") auto

declare str_of_nat.simps [simp del]

definition str_of_int :: "int \<Rightarrow> pystr" where
  "str_of_int i = (if i < 0 then 45 # str_of_nat (nat (- i)) else str_of_nat (nat i))"

definition hex_digit :: "nat \<Rightarrow> nat" where
  "hex_digit d = (if d < 10 then 48 + d else 87 + d)"

definition hex4 :: "nat \<Rightarrow> pystr" where
  "hex4 n = [hex_digit (n div 4096 mod 16), hex_digit (n div 256 mod 16),
             hex_digit (n div 16 mod 16), hex_digit (n mod 16)]"

subsection \<open>The built-in int() on a str\<close>

text \<open>
  \<open>int(s)\<close> removes surrounding whitespace, reads an optional sign and then decimal
  digits, where a single underscore may stand between two digits; anything else raises
  \<open>ValueError\<close> (\<open>None\<close> here). The digits are the ASCII ones: a request path is decoded
  as ISO-8859-1, which has no other decimal digit. The handlers take \<open>int()\<close> as a
  parameter (see \<open>pylib\<close> below); this function is the one the examples are evaluated
  with.
\<close>

definition is_space :: "nat \<Rightarrow> bool" where
  "is_space c = ((9 \<le> c \<and> c \<le> 13) \<or> (28 \<le> c \<and> c \<le> 32) \<or> c = 133 \<or> c = 160
     \<or> c = 5760 \<or> (8192 \<le> c \<and> c \<le> 8202) \<or> c = 8232 \<or> c = 8233 \<or> c = 8239
     \<or> c = 8287 \<or> c = 12288)"

definition strip_ws :: "pystr \<Rightarrow> pystr" where
  "strip_ws s = rev (dropWhile is_space (rev (dropWhile is_space s)))"

definition is_digit :: "nat \<Rightarrow> bool" where
  "is_digit c = (48 \<le> c \<and> c \<le> 57)"

fun digits_from :: "int \<Rightarrow> pystr \<Rightarrow> int option" where
  "digits_from acc [] = Some acc"
| "digits_from acc [c] = (if is_digit c then Some (acc * 10 + int (c - 48)) else None)"
| "digits_from acc (c # d # r) =
     (if is_digit c then digits_from (acc * 10 + int (c - 48)) (d # r)
      else if c = 95 \<and> is_digit d then digits_from acc (d # r)
      else None)"

fun digits_value :: "pystr \<Rightarrow> int option" where
  "digits_value [] = None"
| "digits_value (c # r) = (if is_digit c then digits_from (int (c - 48)) r else None)"

definition py_int :: "pystr \<Rightarrow> int option" where
  "py_int s =
     (case strip_ws s of
        [] \<Rightarrow> None
      | c # r \<Rightarrow>
          if c = 45 then map_option uminus (digits_value r)
          else if c = 43 then digits_value r
          else digits_value (c # r))"

subsection \<open>str.strip("/"), str.split("/") and str.lower()\<close>

definition strip_char :: "nat \<Rightarrow> pystr \<Rightarrow> pystr" where
  "strip_char c s = rev (dropWhile (\<lambda>x. x = c) (rev (dropWhile (\<lambda>x. x = c) s)))"

text \<open>\<open>s.split(c)\<close> for a one-character separator: the pieces between the separators,
  empty pieces included; the empty string gives one empty piece.\<close>

fun split_on :: "nat \<Rightarrow> pystr \<Rightarrow> pystr list" where
  "split_on c [] = [[]]"
| "split_on c (x # xs) =
     (if x = c then [] # split_on c xs
      else (x # hd (split_on c xs)) # tl (split_on c xs))"

fun join :: "pystr \<Rightarrow> pystr list \<Rightarrow> pystr" where
  "join sep [] = []"
| "join sep [x] = x"
| "join sep (x # y # r) = x @ sep @ join sep (y # r)"

text \<open>\<open>str.lower()\<close> on the characters a header name can hold (ISO-8859-1).\<close>

definition lower_char :: "nat \<Rightarrow> nat" where
  "lower_char c =
     (if (65 \<le> c \<and> c \<le> 90) \<or> (192 \<le> c \<and> c \<le> 222 \<and> c \<noteq> 215) then c + 32 else c)"

definition lower :: "pystr \<Rightarrow> pystr" where
  "lower s = map lower_char s"

subsection \<open>str.encode("utf-8")\<close>

definition is_surrogate :: "nat \<Rightarrow> bool" where
  "is_surrogate c = (55296 \<le> c \<and> c \<le> 57343)"

definition utf8_char :: "nat \<Rightarrow> pybytes" where
  "utf8_char c =
     (if c < 128 then [c]
      else if c < 2048 then [192 + c div 64, 128 + c mod 64]
      else if c < 65536 then [224 + c div 4096, 128 + c div 64 mod 64, 128 + c mod 64]
      else [240 + c div 262144, 128 + c div 4096 mod 64, 128 + c div 64 mod 64,
            128 + c mod 64])"

text \<open>The text of the \<open>UnicodeEncodeError\<close> for the first run of lone surrogates.\<close>

definition encode_error_text :: "pystr \<Rightarrow> pystr" where
  "encode_error_text s =
     (let start = length (takeWhile (\<lambda>c. \<not> is_surrogate c) s);
          run = takeWhile is_surrogate (dropWhile (\<lambda>c. \<not> is_surrogate c) s)
      in if length run = 1
         then [39] @ S ''utf-8'' @ [39] @ S '' codec can'' @ [39] @ S ''t encode character ''
              @ [39, 92, 117] @ hex4 (hd run) @ [39] @ S '' in position '' @ str_of_nat start
              @ S '': surrogates not allowed''
         else [39] @ S ''utf-8'' @ [39] @ S '' codec can'' @ [39] @ S ''t encode characters in position ''
              @ str_of_nat start @ [45] @ str_of_nat (start + length run - 1)
              @ S '': surrogates not allowed'')"

definition utf8_encode :: "pystr \<Rightarrow> py_error + pybytes" where
  "utf8_encode s =
     (if list_ex is_surrogate s then Inl (UnicodeEncodeError (encode_error_text s))
      else Inr (concat (map utf8_char s)))"

subsection \<open>json.dumps\<close>

datatype json =
    JNull
  | JInt int
  | JFloat pyfloat
  | JStr pystr
  | JList "json list"
  | JObject "(pystr \<times> json) list"

text \<open>
  With \<open>ensure_ascii\<close> (the default) every character outside the printable ASCII range,
  the quote and the backslash are escaped; a code point above U+FFFF becomes a surrogate
  pair of two escapes.
\<close>

definition json_escape_char :: "nat \<Rightarrow> pystr" where
  "json_escape_char c =
     (if c = 34 then [92, 34]
      else if c = 92 then [92, 92]
      else if c = 8 then [92, 98]
      else if c = 12 then [92, 102]
      else if c = 10 then [92, 110]
      else if c = 13 then [92, 114]
      else if c = 9 then [92, 116]
      else if 32 \<le> c \<and> c \<le> 126 then [c]
      else if c < 65536 then [92, 117] @ hex4 c
      else [92, 117] @ hex4 (55296 + (c - 65536) div 1024 mod 1024)
           @ [92, 117] @ hex4 (56320 + (c - 65536) mod 1024))"

definition json_string :: "pystr \<Rightarrow> pystr" where
  "json_string s = [34] @ concat (map json_escape_char s) @ [34]"

text \<open>The text of a float: \<open>float.__repr__\<close> for a finite value (a parameter, \<open>fr\<close>),
  and the names json.dumps gives to the special values.\<close>

definition json_float :: "(pyfloat \<Rightarrow> string) \<Rightarrow> pyfloat \<Rightarrow> pystr" where
  "json_float fr x =
     (case x of NaN \<Rightarrow> S ''NaN'' | PInf \<Rightarrow> S ''Infinity'' | NInf \<Rightarrow> S ''-Infinity''
      | Fin v \<Rightarrow> S (fr x))"

definition newline_indent :: "nat option \<Rightarrow> nat \<Rightarrow> pystr" where
  "newline_indent indent level =
     (case indent of None \<Rightarrow> [] | Some n \<Rightarrow> 10 # replicate (n * level) 32)"

definition item_separator :: "nat option \<Rightarrow> nat \<Rightarrow> pystr" where
  "item_separator indent level =
     (case indent of None \<Rightarrow> S '', '' | Some n \<Rightarrow> 44 # newline_indent indent level)"

fun json_dumps :: "(pyfloat \<Rightarrow> string) \<Rightarrow> nat option \<Rightarrow> nat \<Rightarrow> json \<Rightarrow> pystr" where
  "json_dumps fr indent level JNull = S ''null''"
| "json_dumps fr indent level (JInt i) = str_of_int i"
| "json_dumps fr indent level (JFloat x) = json_float fr x"
| "json_dumps fr indent level (JStr s) = json_string s"
| "json_dumps fr indent level (JList xs) =
     (if xs = [] then S ''[]''
      else [91] @ newline_indent indent (Suc level)
           @ join (item_separator indent (Suc level))
                (map (json_dumps fr indent (Suc level)) xs)
           @ newline_indent indent level @ [93])"
| "json_dumps fr indent level (JObject kvs) =
     (if kvs = [] then S ''{}''
      else [123] @ newline_indent indent (Suc level)
           @ join (item_separator indent (Suc level))
                (map (\<lambda>kv. json_string (fst kv) @ S '': ''
                            @ json_dumps fr indent (Suc level) (snd kv)) kvs)
           @ newline_indent indent level @ [125])"

section \<open>What a handler does: events and exceptions\<close>

text \<open>
  A response as \<open>_send_response\<close> writes it: the status of the status line, the headers
  it sends itself, in order, and the bytes of the body. (The base class adds its own
  \<open>Server\<close> and \<open>Date\<close> headers to every status line; they are not part of this
  program.) The headers are buffered until \<open>end_headers\<close>, so a response is written
  whole or not at all.
\<close>

record response =
  status_code :: int
  header_lines :: "(pystr \<times> pystr) list"
  body_bytes :: pybytes

text \<open>
  What a handler does, in order: it sleeps, prints to the console and sends responses.
  A run of a handler is the list of these events together with the exception that ended
  it, if one did. (The line that \<open>log_message\<close> prints for every response goes to the
  console, not to the connection; it is left out of the runs.)
\<close>

datatype event = Sleep pyfloat | Print pystr | Send response

type_synonym result = "event list \<times> py_error option"

definition seq :: "result \<Rightarrow> result \<Rightarrow> result" where
  "seq a b = (case snd a of Some e \<Rightarrow> a | None \<Rightarrow> (fst a @ fst b, snd b))"

definition raise :: "py_error \<Rightarrow> result" where
  "raise e = ([], Some e)"

text \<open>\<open>try: r except ValueError as e: handler\<close>.\<close>

definition except_ValueError :: "result \<Rightarrow> (pystr \<Rightarrow> result) \<Rightarrow> result" where
  "except_ValueError r handler =
     (case snd r of
        None \<Rightarrow> r
      | Some e \<Rightarrow>
          (case caught_ValueError e of
             None \<Rightarrow> r
           | Some m \<Rightarrow> seq (fst r, None) (handler m)))"

text \<open>The responses sent during a run, and the time slept in it.\<close>

fun sent :: "event list \<Rightarrow> response list" where
  "sent [] = []"
| "sent (Send r # es) = r # sent es"
| "sent (Sleep x # es) = sent es"
| "sent (Print s # es) = sent es"

fun slept :: "event list \<Rightarrow> pyfloat list" where
  "slept [] = []"
| "slept (Sleep x # es) = x # slept es"
| "slept (Send r # es) = slept es"
| "slept (Print s # es) = slept es"

fun seconds :: "pyfloat \<Rightarrow> rat" where
  "seconds (Fin v) = v"
| "seconds PInf = 0"
| "seconds NInf = 0"
| "seconds NaN = 0"

definition total_sleep :: "event list \<Rightarrow> rat" where
  "total_sleep es = sum_list (map seconds (slept es))"

text \<open>
  \<open>time.sleep(secs)\<close>: NaN raises \<open>ValueError\<close>, a value that does not fit the
  interpreter's 64-bit count of nanoseconds raises \<open>OverflowError\<close>, a negative one
  \<open>ValueError\<close>; otherwise the thread sleeps.
\<close>

definition time_sleep :: "pyfloat \<Rightarrow> result" where
  "time_sleep secs =
     (case secs of
        NaN \<Rightarrow> raise (ValueError (S ''Invalid value NaN (not a number)''))
      | PInf \<Rightarrow> raise OverflowError
      | NInf \<Rightarrow> raise OverflowError
      | Fin v \<Rightarrow>
          if v * 1000000000 \<ge> 2 ^ 63 \<or> v * 1000000000 \<le> - (2 ^ 63) then raise OverflowError
          else if v < 0 then raise (ValueError (S ''sleep length must be non-negative''))
          else ([Sleep secs], None))"

section \<open>The library functions the server calls\<close>

text \<open>
  The functions of the Python library that the handlers call and that are not modelled
  above are parameters of the model, so that every theorem below holds for whatever
  they compute:
  \<^item> \<open>urlparse\<close>: the \<open>path\<close> and \<open>query\<close> components of \<open>urllib.parse.urlparse(url)\<close>,
    or the \<open>ValueError\<close> it raises;
  \<^item> \<open>parse_qs\<close>: \<open>urllib.parse.parse_qs\<close>, a dict from a name to the list of its values,
    in insertion order;
  \<^item> \<open>int_of_str\<close> and \<open>float_of_str\<close>: the built-in \<open>int(s)\<close> and \<open>float(s)\<close> on a
    \<open>str\<close>, or the text of the \<open>ValueError\<close> they raise;
  \<^item> \<open>float_repr\<close>: \<open>float.__repr__\<close> on a finite value;
  \<^item> \<open>decode_utf8\<close>: \<open>bytes.decode("utf-8")\<close>, or the \<open>UnicodeDecodeError\<close> it raises;
  \<^item> \<open>responses\<close>: the reason phrase of a status in
    \<open>BaseHTTPRequestHandler.responses\<close>.
\<close>

record pylib =
  urlparse :: "pystr \<Rightarrow> py_error + (pystr \<times> pystr)"
  parse_qs :: "pystr \<Rightarrow> (pystr \<times> pystr list) list"
  int_of_str :: "pystr \<Rightarrow> pystr + int"
  float_of_str :: "pystr \<Rightarrow> pystr + pyfloat"
  float_repr :: "pyfloat \<Rightarrow> string"
  decode_utf8 :: "pybytes \<Rightarrow> py_error + pystr"
  responses :: "int \<Rightarrow> pystr option"

text \<open>\<open>str(x)\<close> of a float, as an f-string formats it.\<close>

definition str_of_float :: "pylib \<Rightarrow> pyfloat \<Rightarrow> pystr" where
  "str_of_float L x =
     (case x of NaN \<Rightarrow> S ''nan'' | PInf \<Rightarrow> S ''inf'' | NInf \<Rightarrow> S ''-inf''
      | Fin v \<Rightarrow> S (float_repr L x))"

definition dumps :: "pylib \<Rightarrow> json \<Rightarrow> pystr" where
  "dumps L j = json_dumps (float_repr L) None 0 j"

definition dumps_indent :: "pylib \<Rightarrow> nat \<Rightarrow> json \<Rightarrow> pystr" where
  "dumps_indent L n j = json_dumps (float_repr L) (Some n) 0 j"

text \<open>\<open>os.getenv(key, default)\<close> on the environment of the process.\<close>

definition getenv :: "(pystr \<Rightarrow> pystr option) \<Rightarrow> pystr \<Rightarrow> pystr \<Rightarrow> pystr" where
  "getenv env key dflt = (case env key of None \<Rightarrow> dflt | Some v \<Rightarrow> v)"

section \<open>The request handler\<close>

text \<open>
  A request as the handler object holds it: \<open>self.path\<close>, \<open>self.headers\<close> (the header
  lines in the order received), the bytes that can be read from \<open>self.rfile\<close> and
  \<open>self.client_address[0]\<close>. The state of the process when the request is handled:
  the environment, what \<open>time.time()\<close> returns and \<open>time.time() - server_start_time\<close>.
\<close>

record request =
  path :: pystr
  headers :: "(pystr \<times> pystr) list"
  rfile :: pybytes
  client_address :: pystr

record process =
  environ :: "pystr \<Rightarrow> pystr option"
  time_time :: pyfloat
  uptime :: pyfloat

datatype http_method = GET | POST

fun method_name :: "http_method \<Rightarrow> pystr" where
  "method_name GET = S ''GET''"
| "method_name POST = S ''POST''"

type_synonym query = "(pystr \<times> pystr list) list"

definition application_json :: pystr where
  "application_json = S ''application/json''"

text \<open>\<open>_send_response(status_code, content_type, body)\<close>.\<close>

definition send_response :: "pylib \<Rightarrow> pyfloat \<Rightarrow> int \<Rightarrow> pystr \<Rightarrow> pystr option \<Rightarrow> result" where
  "send_response L now status content_type body =
     (let body' =
        (case body of
           Some b \<Rightarrow> b
         | None \<Rightarrow>
             dumps L (JObject
               [(S ''status'', JInt status),
                (S ''message'',
                   JStr (case responses L status of Some m \<Rightarrow> m | None \<Rightarrow> S ''Unknown'')),
                (S ''timestamp'', JFloat now)]))
      in case utf8_encode body' of
           Inl e \<Rightarrow> raise e
         | Inr bytes \<Rightarrow>
             ([Send \<lparr>status_code = status,
                     header_lines =
                       [(S ''Content-Type'', content_type),
                        (S ''Access-Control-Allow-Origin'', S ''*''),
                        (S ''Server'', S ''painlessMesh-MockServer/1.0''),
                        (S ''Content-Length'', str_of_nat (length bytes))],
                     body_bytes = bytes\<rparr>], None))"

text \<open>\<open>_parse_path\<close>.\<close>

definition parse_path :: "pylib \<Rightarrow> request \<Rightarrow> py_error + (pystr list \<times> query)" where
  "parse_path L req =
     (case urlparse L (path req) of
        Inl e \<Rightarrow> Inl e
      | Inr parsed \<Rightarrow>
          (let path_parts = split_on 47 (strip_char 47 (fst parsed));
               query_params = parse_qs L (snd parsed)
           in Inr (path_parts, query_params)))"

text \<open>\<open>self.headers.get(name)\<close>: the first header of that name, whatever its case.\<close>

definition headers_get :: "(pystr \<times> pystr) list \<Rightarrow> pystr \<Rightarrow> pystr option" where
  "headers_get hs name = map_of (map (\<lambda>kv. (lower (fst kv), snd kv)) hs) (lower name)"

text \<open>\<open>_read_body\<close>. \<open>rfile.read(n)\<close> returns the next \<open>n\<close> bytes, fewer at the end of
  the stream.\<close>

definition read_body :: "pylib \<Rightarrow> request \<Rightarrow> py_error + pystr" where
  "read_body L req =
     (case (case headers_get (headers req) (S ''Content-Length'') of
              None \<Rightarrow> Inr 0
            | Some v \<Rightarrow> int_of_str L v) of
        Inl m \<Rightarrow> Inl (ValueError m)
      | Inr content_length \<Rightarrow>
          if content_length > 0 then decode_utf8 L (take (nat content_length) (rfile req))
          else Inr [])"

text \<open>\<open>_handle_default\<close>.\<close>

definition handle_default :: "pylib \<Rightarrow> process \<Rightarrow> result" where
  "handle_default L P =
     (case int_of_str L (getenv (environ P) (S ''MOCK_HTTP_STATUS'') (S ''200'')) of
        Inl m \<Rightarrow> raise (ValueError m)
      | Inr status \<Rightarrow>
          send_response L (time_time P) status application_json
            (Some (dumps L (JObject
               [(S ''message'', JStr (S ''painlessMesh Mock HTTP Server'')),
                (S ''status'', JStr (S ''ok'')),
                (S ''timestamp'', JFloat (time_time P))]))))"

text \<open>\<open>_handle_status\<close>.\<close>

definition handle_status :: "pylib \<Rightarrow> pyfloat \<Rightarrow> pystr \<Rightarrow> result" where
  "handle_status L now code_str =
     except_ValueError
       (case int_of_str L code_str of
          Inl m \<Rightarrow> raise (ValueError m)
        | Inr status \<Rightarrow>
            if status < 100 \<or> status > 599 then raise (ValueError (S ''Invalid status code''))
            else send_response L now status application_json
                   (Some (dumps L (JObject
                      [(S ''requested_status'', JInt status),
                       (S ''message'', JStr (S ''Mock response with status '' @ str_of_int status)),
                       (S ''timestamp'', JFloat now)]))))
       (\<lambda>e. send_response L now 400 application_json
               (Some (dumps L (JObject
                  [(S ''error'', JStr (S ''Invalid status code'')),
                   (S ''provided'', JStr code_str)]))))"

text \<open>\<open>_handle_delay\<close>.\<close>

definition handle_delay :: "pylib \<Rightarrow> pyfloat \<Rightarrow> pystr \<Rightarrow> result" where
  "handle_delay L now delay_str =
     except_ValueError
       (case float_of_str L delay_str of
          Inl m \<Rightarrow> raise (ValueError m)
        | Inr delay \<Rightarrow>
            if float_lt delay (Fin 0) \<or> float_gt delay (Fin 300)
            then raise (ValueError (S ''Delay out of range''))
            else seq (time_sleep delay)
                   (send_response L now 200 application_json
                      (Some (dumps L (JObject
                         [(S ''message'',
                             JStr (S ''Response delayed by '' @ str_of_float L delay @ S '' seconds'')),
                          (S ''delay'', JFloat delay),
                          (S ''timestamp'', JFloat now)])))))
       (\<lambda>e. send_response L now 400 application_json
               (Some (dumps L (JObject
                  [(S ''error'', JStr (S ''Invalid delay: '' @ e)),
                   (S ''provided'', JStr delay_str)]))))"

text \<open>\<open>_handle_timeout\<close>: the bare \<open>except\<close> swallows whatever the sleep raises.\<close>

definition handle_timeout :: result where
  "handle_timeout =
     seq ([Print (S ''[INFO] Timeout endpoint called - hanging connection'')], None)
         (fst (time_sleep (Fin 3600)), None)"

text \<open>\<open>dict(self.headers)\<close>: a dict is built from the names in order, each with the
  value \<open>self.headers[name]\<close>; a name met again keeps its place.\<close>

fun dict_set :: "('k \<times> 'v) list \<Rightarrow> 'k \<Rightarrow> 'v \<Rightarrow> ('k \<times> 'v) list" where
  "dict_set [] k v = [(k, v)]"
| "dict_set (kv # d) k v = (if fst kv = k then (k, v) # d else kv # dict_set d k v)"

definition headers_dict :: "(pystr \<times> pystr) list \<Rightarrow> (pystr \<times> pystr) list" where
  "headers_dict hs =
     foldl (\<lambda>d kv. dict_set d (fst kv)
                     (case headers_get hs (fst kv) of Some v \<Rightarrow> v | None \<Rightarrow> snd kv))
       [] hs"

text \<open>\<open>_handle_echo\<close>.\<close>

definition handle_echo ::
  "pylib \<Rightarrow> pyfloat \<Rightarrow> request \<Rightarrow> http_method \<Rightarrow> query \<Rightarrow> pystr option \<Rightarrow> result" where
  "handle_echo L now req method query_params body =
     send_response L now 200 application_json
       (Some (dumps_indent L 2 (JObject
          [(S ''method'', JStr (method_name method)),
           (S ''path'', JStr (path req)),
           (S ''headers'', JObject (map (\<lambda>kv. (fst kv, JStr (snd kv))) (headers_dict (headers req)))),
           (S ''query_params'', JObject (map (\<lambda>kv. (fst kv, JList (map JStr (snd kv)))) query_params)),
           (S ''body'', (case body of None \<Rightarrow> JNull | Some b \<Rightarrow> JStr b)),
           (S ''client'', JStr (client_address req)),
           (S ''timestamp'', JFloat now)])))"

text \<open>\<open>query_params.get(name, [None])[0]\<close>.\<close>

definition first_value :: "query \<Rightarrow> pystr \<Rightarrow> py_error + pystr option" where
  "first_value query_params name =
     (case map_of query_params name of
        None \<Rightarrow> Inr None
      | Some [] \<Rightarrow> Inl IndexError
      | Some (v # vs) \<Rightarrow> Inr (Some v))"

text \<open>\<open>not x\<close> for \<open>x\<close> a \<open>str\<close> or \<open>None\<close>.\<close>

definition py_not :: "pystr option \<Rightarrow> bool" where
  "py_not x = (x = None \<or> x = Some [])"

text \<open>\<open>_handle_whatsapp\<close>. Past the check all three values are strings; \<open>len(None)\<close>
  would raise \<open>TypeError\<close> and \<open>json.dumps\<close> writes \<open>None\<close> as \<open>null\<close>.\<close>

definition handle_whatsapp :: "pylib \<Rightarrow> pyfloat \<Rightarrow> query \<Rightarrow> result" where
  "handle_whatsapp L now query_params =
     (case first_value query_params (S ''phone'') of
        Inl e \<Rightarrow> raise e
      | Inr phone \<Rightarrow>
     (case first_value query_params (S ''apikey'') of
        Inl e \<Rightarrow> raise e
      | Inr apikey \<Rightarrow>
     (case first_value query_params (S ''text'') of
        Inl e \<Rightarrow> raise e
      | Inr text \<Rightarrow>
          if py_not phone \<or> py_not apikey \<or> py_not text
          then send_response L now 400 application_json
                 (Some (dumps L (JObject
                    [(S ''error'', JStr (S ''Missing required parameters'')),
                     (S ''required'', JList [JStr (S ''phone''), JStr (S ''apikey''), JStr (S ''text'')]),
                     (S ''provided'', JList (map (\<lambda>kv. JStr (fst kv)) query_params))])))
          else
            (case text of
               None \<Rightarrow> raise TypeError
             | Some t \<Rightarrow>
                 send_response L now 200 application_json
                   (Some (dumps L (JObject
                      [(S ''message'', JStr (S ''WhatsApp message queued successfully'')),
                       (S ''phone'', (case phone of None \<Rightarrow> JNull | Some p \<Rightarrow> JStr p)),
                       (S ''text'', JStr (if length t > 50 then take 50 t @ S ''...'' else t)),
                       (S ''timestamp'', JFloat now)])))))))"

text \<open>\<open>_handle_health\<close>.\<close>

definition handle_health :: "pylib \<Rightarrow> process \<Rightarrow> result" where
  "handle_health L P =
     send_response L (time_time P) 200 application_json
       (Some (dumps L (JObject
          [(S ''status'', JStr (S ''healthy'')),
           (S ''server'', JStr (S ''painlessMesh-MockServer'')),
           (S ''version'', JStr (S ''1.0.0'')),
           (S ''uptime'', JFloat (uptime P)),
           (S ''timestamp'', JFloat (time_time P))])))"

text \<open>\<open>_handle_not_found\<close>.\<close>

definition handle_not_found :: "pylib \<Rightarrow> pyfloat \<Rightarrow> request \<Rightarrow> result" where
  "handle_not_found L now req =
     send_response L now 404 application_json
       (Some (dumps L (JObject
          [(S ''error'', JStr (S ''Endpoint not found'')),
           (S ''path'', JStr (path req)),
           (S ''available_endpoints'',
              JList [JStr (S ''/''), JStr (S ''/status/{code}''), JStr (S ''/delay/{seconds}''),
                     JStr (S ''/timeout''), JStr (S ''/echo''), JStr (S ''/whatsapp''),
                     JStr (S ''/health'')])])))"

text \<open>The routing of \<open>_handle_request\<close>: the first branch that matches.\<close>

definition route ::
  "pylib \<Rightarrow> process \<Rightarrow> http_method \<Rightarrow> request \<Rightarrow> pystr list \<Rightarrow> query \<Rightarrow> pystr option \<Rightarrow> result" where
  "route L P method req path_parts query_params body =
     (if path_parts = [] \<or> path_parts ! 0 = [] then handle_default L P
      else if path_parts ! 0 = S ''status'' \<and> length path_parts > 1
        then handle_status L (time_time P) (path_parts ! 1)
      else if path_parts ! 0 = S ''delay'' \<and> length path_parts > 1
        then handle_delay L (time_time P) (path_parts ! 1)
      else if path_parts ! 0 = S ''timeout'' then handle_timeout
      else if path_parts ! 0 = S ''echo''
        then handle_echo L (time_time P) req method query_params body
      else if path_parts ! 0 = S ''whatsapp'' then handle_whatsapp L (time_time P) query_params
      else if path_parts ! 0 = S ''health'' then handle_health L P
      else handle_not_found L (time_time P) req)"

text \<open>The global delay of \<open>_handle_request\<close>: \<open>MOCK_HTTP_DELAY\<close> is read from the
  environment and slept when it is positive.\<close>

definition apply_default_delay :: "pylib \<Rightarrow> process \<Rightarrow> result" where
  "apply_default_delay L P =
     (case float_of_str L (getenv (environ P) (S ''MOCK_HTTP_DELAY'') (S ''0'')) of
        Inl m \<Rightarrow> raise (ValueError m)
      | Inr default_delay \<Rightarrow>
          if float_gt default_delay (Fin 0) then time_sleep default_delay else ([], None))"

text \<open>\<open>body = self._read_body() if method == "POST" else None\<close>.\<close>

definition request_body :: "pylib \<Rightarrow> http_method \<Rightarrow> request \<Rightarrow> py_error + pystr option" where
  "request_body L method req =
     (if method = POST then map_sum id Some (read_body L req) else Inr None)"

text \<open>\<open>_handle_request(method)\<close>, which \<open>do_GET\<close> and \<open>do_POST\<close> call.\<close>

definition handle_request :: "pylib \<Rightarrow> process \<Rightarrow> http_method \<Rightarrow> request \<Rightarrow> result" where
  "handle_request L P method req =
     (case parse_path L req of
        Inl e \<Rightarrow> raise e
      | Inr parts_and_query \<Rightarrow>
          (case request_body L method req of
             Inl e \<Rightarrow> raise e
           | Inr body \<Rightarrow>
               seq (apply_default_delay L P)
                   (route L P method req (fst parts_and_query) (snd parts_and_query) body)))"

section \<open>The sentences of the specification that the code is compared with\<close>

text \<open>
  The specification's segments of a path: the non-empty components obtained by splitting
  the path on the slash.
\<close>

definition spec_segments :: "pystr \<Rightarrow> pystr list" where
  "spec_segments p = filter (\<lambda>s. s \<noteq> []) (split_on 47 p)"

text \<open>
  The specification's \<open>ServerConfig\<close>, sourced once when the process starts: the default
  status and the global delay as the environment of that moment gives them.
\<close>

definition startup_default_status :: "pylib \<Rightarrow> (pystr \<Rightarrow> pystr option) \<Rightarrow> pystr + int" where
  "startup_default_status L env0 = int_of_str L (getenv env0 (S ''MOCK_HTTP_STATUS'') (S ''200''))"

definition startup_default_delay :: "pylib \<Rightarrow> (pystr \<Rightarrow> pystr option) \<Rightarrow> pystr + pyfloat" where
  "startup_default_delay L env0 = float_of_str L (getenv env0 (S ''MOCK_HTTP_DELAY'') (S ''0''))"

text \<open>
  The delay scenario's range: a parsed value lies in \<open>[0, 300]\<close>. Infinities and NaN do
  not. The text of the error the scenario reports for a segment it rejects.
\<close>

definition in_delay_range :: "pyfloat \<Rightarrow> bool" where
  "in_delay_range x = (case x of Fin v \<Rightarrow> 0 \<le> v \<and> v \<le> 300 | PInf \<Rightarrow> False | NInf \<Rightarrow> False | NaN \<Rightarrow> False)"

definition delay_error_text :: "pylib \<Rightarrow> pystr \<Rightarrow> pystr" where
  "delay_error_text L s =
     (case float_of_str L s of
        Inl m \<Rightarrow> m
      | Inr NaN \<Rightarrow> S ''Invalid value NaN (not a number)''
      | Inr x \<Rightarrow> S ''Delay out of range'')"

text \<open>
  The response with status \<open>st\<close> whose body is the JSON text of \<open>j\<close>: the four headers of
  \<open>_send_response\<close>, with the number of bytes of the body as \<open>Content-Length\<close>.
\<close>

definition json_reply :: "pylib \<Rightarrow> int \<Rightarrow> pystr \<Rightarrow> response" where
  "json_reply L st text =
     \<lparr>status_code = st,
      header_lines =
        [(S ''Content-Type'', S ''application/json''),
         (S ''Access-Control-Allow-Origin'', S ''*''),
         (S ''Server'', S ''painlessMesh-MockServer/1.0''),
         (S ''Content-Length'', str_of_nat (length (concat (map utf8_char text))))],
      body_bytes = concat (map utf8_char text)\<rparr>"

text \<open>
  The value supplied for a query parameter: the first of its values. A parameter is
  missing or empty when no value is supplied or the value is the empty string.
\<close>

definition supplied :: "query \<Rightarrow> pystr \<Rightarrow> pystr option" where
  "supplied query_params name =
     (case map_of query_params name of
        None \<Rightarrow> None
      | Some [] \<Rightarrow> None
      | Some (v # vs) \<Rightarrow> Some v)"

definition missing_or_empty :: "query \<Rightarrow> pystr \<Rightarrow> bool" where
  "missing_or_empty query_params name =
     (supplied query_params name = None \<or> supplied query_params name = Some [])"

text \<open>
  The header of a response with a given name, and the envelope the specification
  requires of every response: a \<open>Content-Length\<close> that is the number of bytes of the
  body, \<open>Access-Control-Allow-Origin: *\<close>, a \<open>Content-Type\<close> and a \<open>Server\<close> header.
\<close>

definition header :: "response \<Rightarrow> pystr \<Rightarrow> pystr option" where
  "header r name = map_of (header_lines r) name"

definition envelope :: "response \<Rightarrow> bool" where
  "envelope r =
     (header r (S ''Content-Length'') = Some (str_of_nat (length (body_bytes r)))
      \<and> header r (S ''Access-Control-Allow-Origin'') = Some (S ''*'')
      \<and> header r (S ''Content-Type'') \<noteq> None
      \<and> header r (S ''Server'') \<noteq> None)"

text \<open>The envelope of a JSON response of this server.\<close>

definition json_envelope :: "response \<Rightarrow> bool" where
  "json_envelope r = (envelope r \<and> header r (S ''Content-Type'') = Some (S ''application/json'')
     \<and> header r (S ''Server'') = Some (S ''painlessMesh-MockServer/1.0''))"

text \<open>A property of every response sent in a run.\<close>

definition all_sent :: "(response \<Rightarrow> bool) \<Rightarrow> result \<Rightarrow> bool" where
  "all_sent Q res = list_all Q (sent (fst res))"

text \<open>The members of a JSON object.\<close>

fun members :: "json \<Rightarrow> (pystr \<times> json) list" where
  "members (JObject kvs) = kvs"
| "members JNull = []"
| "members (JInt i) = []"
| "members (JFloat x) = []"
| "members (JStr s) = []"
| "members (JList xs) = []"

section \<open>An instance of the library functions, for evaluating the handlers\<close>

text \<open>
  Simple versions of the library functions, each equal to the Python function on the
  inputs named:
  \<^item> \<open>plain_urlparse\<close>: a request target that starts with one slash and has no semicolon,
    tab or line break;
  \<^item> \<open>plain_parse_qs\<close>: a query without percent escapes and plus signs;
  \<^item> \<open>plain_int\<close>: \<open>py_int\<close> above with the text of the error, on a string of Latin-1
    characters with fewer digits than the interpreter's limit (4300 by default);
  \<^item> \<open>plain_float\<close>: a string that \<open>int()\<close> accepts with a value below \<open>2 ^ 53\<close>, or one
    that is no number at all;
  \<^item> \<open>plain_float_repr\<close>: a whole number below \<open>10 ^ 16\<close>;
  \<^item> \<open>plain_str_repr\<close>: printable ASCII without quotes and backslashes;
  \<^item> \<open>plain_decode\<close>: ASCII bytes;
  \<^item> \<open>plain_responses\<close>: the statuses 200, 400 and 404.
\<close>

definition plain_urlparse :: "pystr \<Rightarrow> py_error + (pystr \<times> pystr)" where
  "plain_urlparse url =
     (let u = takeWhile (\<lambda>c. c \<noteq> 35) url
      in Inr (takeWhile (\<lambda>c. c \<noteq> 63) u, drop 1 (dropWhile (\<lambda>c. c \<noteq> 63) u)))"

definition plain_parse_qs :: "pystr \<Rightarrow> query" where
  "plain_parse_qs qs =
     foldl (\<lambda>d field.
              let name = takeWhile (\<lambda>c. c \<noteq> 61) field;
                  v = drop 1 (dropWhile (\<lambda>c. c \<noteq> 61) field)
              in if v = [] then d
                 else dict_set d name (case map_of d name of None \<Rightarrow> [v] | Some vs \<Rightarrow> vs @ [v]))
       [] (split_on 38 qs)"

definition plain_str_repr :: "pystr \<Rightarrow> pystr" where
  "plain_str_repr s = [39] @ s @ [39]"

definition plain_int :: "pystr \<Rightarrow> pystr + int" where
  "plain_int s =
     (case py_int s of
        Some i \<Rightarrow> Inr i
      | None \<Rightarrow> Inl (S ''invalid literal for int() with base 10: '' @ plain_str_repr s))"

definition plain_float :: "pystr \<Rightarrow> pystr + pyfloat" where
  "plain_float s =
     (case py_int s of
        Some i \<Rightarrow> Inr (Fin (of_int i))
      | None \<Rightarrow> Inl (S ''could not convert string to float: '' @ plain_str_repr s))"

definition plain_float_repr :: "pyfloat \<Rightarrow> string" where
  "plain_float_repr x =
     (case x of
        Fin v \<Rightarrow> if of_int (floor v) = v then map char_of (str_of_int (floor v)) @ ''.0'' else ''?''
      | PInf \<Rightarrow> ''inf'' | NInf \<Rightarrow> ''-inf'' | NaN \<Rightarrow> ''nan'')"

definition plain_decode :: "pybytes \<Rightarrow> py_error + pystr" where
  "plain_decode bs =
     (if list_all (\<lambda>b. b < 128) bs then Inr bs
      else Inl (UnicodeDecodeError (S ''invalid start byte'')))"

definition plain_responses :: "int \<Rightarrow> pystr option" where
  "plain_responses c =
     (if c = 200 then Some (S ''OK'')
      else if c = 400 then Some (S ''Bad Request'')
      else if c = 404 then Some (S ''Not Found'')
      else None)"

definition plain_lib :: pylib where
  "plain_lib =
     \<lparr>urlparse = plain_urlparse, parse_qs = plain_parse_qs, int_of_str = plain_int,
      float_of_str = plain_float, float_repr = plain_float_repr, decode_utf8 = plain_decode,
      responses = plain_responses\<rparr>"

text \<open>Environments, a process and requests for the examples.\<close>

definition env_of :: "(pystr \<times> pystr) list \<Rightarrow> pystr \<Rightarrow> pystr option" where
  "env_of kvs = map_of kvs"

definition process_at :: "(pystr \<times> pystr) list \<Rightarrow> process" where
  "process_at kvs = \<lparr>environ = env_of kvs, time_time = Fin 1000, uptime = Fin 12\<rparr>"

definition request_for :: "string \<Rightarrow> request" where
  "request_for target =
     \<lparr>path = S target, headers = [(S ''Host'', S ''localhost'')], rfile = [],
      client_address = S ''127.0.0.1''\<rparr>"

definition post_of :: "string \<Rightarrow> (string \<times> string) list \<Rightarrow> string \<Rightarrow> request" where
  "post_of target hs content =
     \<lparr>path = S target, headers = map (\<lambda>kv. (S (fst kv), S (snd kv))) hs, rfile = S content,
      client_address = S ''127.0.0.1''\<rparr>"

section \<open>The text json.dumps writes is Latin-1, so encoding it never fails\<close>

lemma S_bound: "c \<in> set (S cs) \<Longrightarrow> c < 256"
  by (auto simp: S_def)

lemma str_of_nat_bound: "c \<in> set (str_of_nat n) \<Longrightarrow> c < 256"
proof (induction n arbitrary: c rule: str_of_nat.induct)
  case (1 n)
  show ?case
  proof (cases "n < 10")
    case True
    with "1.prems" show ?thesis by (simp add: str_of_nat.simps)
  next
    case False
    with "1.prems" have "c \<in> set (str_of_nat (n div 10)) \<or> c = 48 + n mod 10"
      by (subst (asm) str_of_nat.simps) auto
    then show ?thesis
    proof
      assume "c \<in> set (str_of_nat (n div 10))"
      with False "1.IH" show ?thesis by blast
    next
      assume "c = 48 + n mod 10"
      then show ?thesis by simp
    qed
  qed
qed

lemma str_of_int_bound: "c \<in> set (str_of_int i) \<Longrightarrow> c < 256"
  by (auto simp: str_of_int_def dest: str_of_nat_bound split: if_splits)

lemma hex4_bound: "c \<in> set (hex4 n) \<Longrightarrow> c < 256"
  by (auto simp: hex4_def hex_digit_def)

lemma json_escape_char_bound: "c \<in> set (json_escape_char x) \<Longrightarrow> c < 256"
  by (auto simp: json_escape_char_def dest: hex4_bound split: if_splits)

lemma json_string_bound: "c \<in> set (json_string s) \<Longrightarrow> c < 256"
  by (auto simp: json_string_def dest: json_escape_char_bound)

lemma json_float_bound: "c \<in> set (json_float fr x) \<Longrightarrow> c < 256"
  by (auto simp: json_float_def dest: S_bound split: pyfloat.splits)

lemma newline_indent_bound: "c \<in> set (newline_indent ind lvl) \<Longrightarrow> c < 256"
  by (auto simp: newline_indent_def split: option.splits)

lemma item_separator_bound: "c \<in> set (item_separator ind lvl) \<Longrightarrow> c < 256"
  by (auto simp: item_separator_def dest: S_bound newline_indent_bound split: option.splits)

lemma join_bound:
  "(\<And>c. c \<in> set sep \<Longrightarrow> c < n) \<Longrightarrow> (\<And>x c. x \<in> set xs \<Longrightarrow> c \<in> set x \<Longrightarrow> c < n)
   \<Longrightarrow> c \<in> set (join sep xs) \<Longrightarrow> c < (n::nat)"
  by (induction sep xs rule: join.induct) auto

lemma json_dumps_bound: "c \<in> set (json_dumps fr ind lvl j) \<Longrightarrow> c < 256"
proof (induction j arbitrary: lvl c)
  case JNull
  then show ?case by (auto dest: S_bound)
next
  case (JInt i)
  then show ?case by (auto dest: str_of_int_bound)
next
  case (JFloat x)
  then show ?case by (auto dest: json_float_bound)
next
  case (JStr s)
  then show ?case by (auto dest: json_string_bound)
next
  case (JList xs)
  show ?case
  proof (cases "xs = []")
    case True
    with JList.prems show ?thesis by (auto dest: S_bound)
  next
    case False
    have inner: "d < 256" if "d \<in> set (join (item_separator ind (Suc lvl)) (map (json_dumps fr ind (Suc lvl)) xs))" for d
      using _ _ that
    proof (rule join_bound)
      show "\<And>c. c \<in> set (item_separator ind (Suc lvl)) \<Longrightarrow> c < 256"
        by (rule item_separator_bound)
      show "\<And>x c. x \<in> set (map (json_dumps fr ind (Suc lvl)) xs) \<Longrightarrow> c \<in> set x \<Longrightarrow> c < 256"
        using JList.IH by auto
    qed
    from JList.prems False show ?thesis
      by (auto dest: newline_indent_bound inner)
  qed
next
  case (JObject kvs)
  show ?case
  proof (cases "kvs = []")
    case True
    with JObject.prems show ?thesis by (auto dest: S_bound)
  next
    case False
    have inner: "d < 256"
      if "d \<in> set (join (item_separator ind (Suc lvl))
            (map (\<lambda>kv. json_string (fst kv) @ S '': '' @ json_dumps fr ind (Suc lvl) (snd kv)) kvs))" for d
      using _ _ that
    proof (rule join_bound)
      show "\<And>c. c \<in> set (item_separator ind (Suc lvl)) \<Longrightarrow> c < 256"
        by (rule item_separator_bound)
      show "\<And>x c. x \<in> set (map (\<lambda>kv. json_string (fst kv) @ S '': '' @ json_dumps fr ind (Suc lvl) (snd kv)) kvs)
          \<Longrightarrow> c \<in> set x \<Longrightarrow> c < 256"
      proof -
        fix x c
        assume "x \<in> set (map (\<lambda>kv. json_string (fst kv) @ S '': '' @ json_dumps fr ind (Suc lvl) (snd kv)) kvs)"
          and cx: "c \<in> set x"
        then obtain kv where kv: "kv \<in> set kvs"
          and x: "x = json_string (fst kv) @ S '': '' @ json_dumps fr ind (Suc lvl) (snd kv)"
          by auto
        have "snd kv \<in> Basic_BNFs.snds kv"
          by (cases kv) simp
        with JObject.IH kv have "\<And>d. d \<in> set (json_dumps fr ind (Suc lvl) (snd kv)) \<Longrightarrow> d < 256"
          by blast
        with cx x show "c < 256"
          by (auto dest: json_string_bound S_bound)
      qed
    qed
    from JObject.prems False show ?thesis
      by (auto dest: newline_indent_bound inner)
  qed
qed

lemma utf8_encode_latin:
  assumes "\<And>c. c \<in> set s \<Longrightarrow> c < 256"
  shows "utf8_encode s = Inr (concat (map utf8_char s))"
proof -
  have "\<not> list_ex is_surrogate s"
    using assms by (fastforce simp: list_ex_iff is_surrogate_def)
  then show ?thesis by (simp add: utf8_encode_def)
qed

lemma send_json:
  "send_response L now st application_json (Some (json_dumps (float_repr L) ind 0 j))
   = ([Send (json_reply L st (json_dumps (float_repr L) ind 0 j))], None)"
  by (simp add: send_response_def utf8_encode_latin json_dumps_bound json_reply_def application_json_def)

section \<open>Sequencing and sending\<close>

lemma send_dumps:
  "send_response L now st application_json (Some (dumps L j)) = ([Send (json_reply L st (dumps L j))], None)"
  unfolding dumps_def by (rule send_json)

lemma send_dumps_indent:
  "send_response L now st application_json (Some (dumps_indent L n j))
   = ([Send (json_reply L st (dumps_indent L n j))], None)"
  unfolding dumps_indent_def by (rule send_json)

lemma except_ValueError_ok [simp]: "except_ValueError (t, None) h = (t, None)"
  by (simp add: except_ValueError_def)

lemma except_ValueError_raise [simp]:
  "except_ValueError (raise e) h = (case caught_ValueError e of None \<Rightarrow> raise e | Some m \<Rightarrow> h m)"
  by (simp add: except_ValueError_def raise_def seq_def split: option.splits)

lemma seq_ok [simp]: "seq (t, None) b = (t @ fst b, snd b)"
  by (simp add: seq_def)

lemma seq_raise [simp]: "seq (t, Some e) b = (t, Some e)"
  by (simp add: seq_def)

lemma seq_raise_left [simp]: "seq (raise e) b = raise e"
  by (simp add: raise_def)

section \<open>The router\<close>

lemma sent_append: "sent (a @ b) = sent a @ sent b"
  by (induction a rule: sent.induct) simp_all

lemma slept_append: "slept (a @ b) = slept a @ slept b"
  by (induction a rule: slept.induct) simp_all

lemma total_sleep_append: "total_sleep (a @ b) = total_sleep a + total_sleep b"
  by (simp add: total_sleep_def slept_append)

lemma sent_time_sleep: "sent (fst (time_sleep x)) = []"
  by (cases x) (simp_all add: time_sleep_def raise_def)

lemma sent_apply_default_delay: "sent (fst (apply_default_delay L P)) = []"
  by (simp add: apply_default_delay_def raise_def sent_time_sleep split: sum.splits)

lemma apply_default_delay_ok:
  assumes "float_of_str L (getenv (environ P) (S ''MOCK_HTTP_DELAY'') (S ''0'')) = Inr (Fin d)"
    and "0 \<le> d" and "d * 1000000000 < 2 ^ 63"
  shows "apply_default_delay L P = ((if 0 < d then [Sleep (Fin d)] else []), None)"
  using assms by (simp add: apply_default_delay_def float_gt_def time_sleep_def)

lemma handle_timeout_eq:
  "handle_timeout = ([Print (S ''[INFO] Timeout endpoint called - hanging connection''), Sleep (Fin 3600)], None)"
  by (simp add: handle_timeout_def time_sleep_def)

lemma literal_distinct [simp]:
  "S ''status'' \<noteq> []" "S ''delay'' \<noteq> []" "S ''timeout'' \<noteq> []" "S ''echo'' \<noteq> []"
  "S ''whatsapp'' \<noteq> []" "S ''health'' \<noteq> []"
  "S ''delay'' \<noteq> S ''status''"
  "S ''timeout'' \<noteq> S ''status''" "S ''timeout'' \<noteq> S ''delay''"
  "S ''echo'' \<noteq> S ''status''" "S ''echo'' \<noteq> S ''delay''" "S ''echo'' \<noteq> S ''timeout''"
  "S ''whatsapp'' \<noteq> S ''status''" "S ''whatsapp'' \<noteq> S ''delay''" "S ''whatsapp'' \<noteq> S ''timeout''"
  "S ''whatsapp'' \<noteq> S ''echo''"
  "S ''health'' \<noteq> S ''status''" "S ''health'' \<noteq> S ''delay''" "S ''health'' \<noteq> S ''timeout''"
  "S ''health'' \<noteq> S ''echo''" "S ''health'' \<noteq> S ''whatsapp''"
  by (simp_all add: S_def)

lemma route_delay:
  assumes "path_parts \<noteq> []" and "path_parts ! 0 = S ''delay''" and "length path_parts > 1"
  shows "route L P method req path_parts query_params body = handle_delay L (time_time P) (path_parts ! 1)"
  using assms by (simp add: route_def)

lemma route_timeout:
  assumes "path_parts \<noteq> []" and "path_parts ! 0 = S ''timeout''"
  shows "route L P method req path_parts query_params body = handle_timeout"
  using assms by (simp add: route_def)

lemma route_echo:
  assumes "path_parts \<noteq> []" and "path_parts ! 0 = S ''echo''"
  shows "route L P method req path_parts query_params body
         = handle_echo L (time_time P) req method query_params body"
  using assms by (simp add: route_def)

lemma handle_request_dispatch:
  assumes "parse_path L req = Inr (path_parts, query_params)"
    and "request_body L method req = Inr body"
  shows "handle_request L P method req
         = seq (apply_default_delay L P) (route L P method req path_parts query_params body)"
  using assms by (simp add: handle_request_def)

lemma request_body_GET: "request_body L GET req = Inr None"
  by (simp add: request_body_def)

section \<open>The examples, evaluated\<close>

lemma plain_lib_simps [simp]:
  "urlparse plain_lib = plain_urlparse" "parse_qs plain_lib = plain_parse_qs"
  "float_of_str plain_lib = plain_float" "float_repr plain_lib = plain_float_repr"
  "int_of_str plain_lib = plain_int" "decode_utf8 plain_lib = plain_decode"
  "responses plain_lib = plain_responses"
  by (simp_all add: plain_lib_def)

lemma py_int_404: "py_int (S ''404'') = Some 404"
  by (simp add: py_int_def S_def strip_ws_def is_space_def is_digit_def)

lemma py_int_abc: "py_int (S ''abc'') = None"
  by (simp add: py_int_def S_def strip_ws_def is_space_def is_digit_def)

lemma py_int_600: "py_int (S ''600'') = Some 600"
  by (simp add: py_int_def S_def strip_ws_def is_space_def is_digit_def)

lemma py_int_2: "py_int (S ''2'') = Some 2"
  by (simp add: py_int_def S_def strip_ws_def is_space_def is_digit_def)

lemma py_int_500: "py_int (S ''500'') = Some 500"
  by (simp add: py_int_def S_def strip_ws_def is_space_def is_digit_def)

lemma py_int_3: "py_int (S ''3'') = Some 3"
  by (simp add: py_int_def S_def strip_ws_def is_space_def is_digit_def)

lemma py_int_0: "py_int (S ''0'') = Some 0"
  by (simp add: py_int_def S_def strip_ws_def is_space_def is_digit_def)

lemma py_int_200: "py_int (S ''200'') = Some 200"
  by (simp add: py_int_def S_def strip_ws_def is_space_def is_digit_def)

lemma py_int_503: "py_int (S ''503'') = Some 503"
  by (simp add: py_int_def S_def strip_ws_def is_space_def is_digit_def)

lemma content_length_value_5: "int_of_str plain_lib (S ''5'') = Inr 5"
  by (simp add: plain_int_def py_int_def S_def strip_ws_def is_space_def is_digit_def)

lemma parse_root: "parse_path plain_lib (request_for ''/'') = Inr ([[]], [])"
  by (simp add: parse_path_def request_for_def plain_urlparse_def plain_parse_qs_def S_def strip_char_def)

lemma parse_delay_2: "parse_path plain_lib (request_for ''/delay/2'') = Inr ([S ''delay'', S ''2''], [])"
  by (simp add: parse_path_def request_for_def plain_urlparse_def plain_parse_qs_def S_def strip_char_def)

lemma parse_timeout: "parse_path plain_lib (request_for ''/timeout'') = Inr ([S ''timeout''], [])"
  by (simp add: parse_path_def request_for_def plain_urlparse_def plain_parse_qs_def S_def strip_char_def)

lemma parse_echo_x: "parse_path plain_lib (request_for ''/echo//x'') = Inr ([S ''echo'', [], S ''x''], [])"
  by (simp add: parse_path_def request_for_def plain_urlparse_def plain_parse_qs_def S_def strip_char_def)

lemma parse_echo: "parse_path plain_lib (request_for ''/echo'') = Inr ([S ''echo''], [])"
  by (simp add: parse_path_def request_for_def plain_urlparse_def plain_parse_qs_def S_def strip_char_def)

lemma parse_echo_post:
  "parse_path plain_lib (post_of ''/echo'' [(''content-length'', ''5'')] ''hello world'')
   = Inr ([S ''echo''], [])"
  by (simp add: parse_path_def post_of_def plain_urlparse_def plain_parse_qs_def S_def strip_char_def)

lemma delay_3: "float_of_str plain_lib (getenv (environ (process_at [(S ''MOCK_HTTP_DELAY'', S ''3'')]))
     (S ''MOCK_HTTP_DELAY'') (S ''0'')) = Inr (Fin 3)"
  by (simp add: process_at_def env_of_def getenv_def plain_float_def py_int_3)

lemma delay_unset: "float_of_str plain_lib (getenv (environ (process_at [])) (S ''MOCK_HTTP_DELAY'') (S ''0'')) = Inr (Fin 0)"
  by (simp add: process_at_def env_of_def getenv_def plain_float_def py_int_0)

lemma default_delay_3:
  "apply_default_delay plain_lib (process_at [(S ''MOCK_HTTP_DELAY'', S ''3'')]) = ([Sleep (Fin 3)], None)"
  using apply_default_delay_ok [OF delay_3] by simp

lemma default_delay_unset: "apply_default_delay plain_lib (process_at []) = ([], None)"
  using apply_default_delay_ok [OF delay_unset] by simp

section \<open>The status scenario\<close>

lemma handle_status_eq:
  "handle_status L now s =
     ([Send (case int_of_str L s of
               Inl m \<Rightarrow>
                 json_reply L 400 (dumps L (JObject
                   [(S ''error'', JStr (S ''Invalid status code'')), (S ''provided'', JStr s)]))
             | Inr code \<Rightarrow>
                 if code < 100 \<or> code > 599
                 then json_reply L 400 (dumps L (JObject
                   [(S ''error'', JStr (S ''Invalid status code'')), (S ''provided'', JStr s)]))
                 else json_reply L code (dumps L (JObject
                   [(S ''requested_status'', JInt code),
                    (S ''message'', JStr (S ''Mock response with status '' @ str_of_int code)),
                    (S ''timestamp'', JFloat now)])))], None)"
  by (simp add: handle_status_def send_dumps split: sum.splits)

text \<open>
  Claim C1. For every path segment \<open>s\<close>: if \<open>int(s)\<close> gives a code with
  \<open>100 \<le> code \<le> 599\<close>, the status scenario sends one response, with exactly that status
  and the JSON body with the keys \<open>requested_status\<close> (the code), \<open>message\<close> and
  \<open>timestamp\<close>; if \<open>s\<close> is no integer or the code is outside that range, it sends one
  response with status 400 and the body \<open>{error: "Invalid status code", provided: s}\<close>.
\<close>

theorem status_scenario:
  "(\<forall>code. int_of_str L s = Inr code \<and> 100 \<le> code \<and> code \<le> 599 \<longrightarrow>
      handle_status L now s =
        ([Send (json_reply L code (dumps L (JObject
           [(S ''requested_status'', JInt code),
            (S ''message'', JStr (S ''Mock response with status '' @ str_of_int code)),
            (S ''timestamp'', JFloat now)])))], None)
      \<and> status_code (json_reply L code (dumps L (JObject
           [(S ''requested_status'', JInt code),
            (S ''message'', JStr (S ''Mock response with status '' @ str_of_int code)),
            (S ''timestamp'', JFloat now)]))) = code)
   \<and> ((\<exists>m. int_of_str L s = Inl m)
        \<or> (\<exists>code. int_of_str L s = Inr code \<and> (code < 100 \<or> 599 < code)) \<longrightarrow>
      handle_status L now s =
        ([Send (json_reply L 400 (dumps L (JObject
           [(S ''error'', JStr (S ''Invalid status code'')), (S ''provided'', JStr s)])))], None))"
  by (auto simp: handle_status_eq json_reply_def)

theorem status_scenario_witness:
  "int_of_str plain_lib (S ''404'') = Inr 404
   \<and> map status_code (sent (fst (handle_status plain_lib (Fin 1000) (S ''404'')))) = [404]
   \<and> int_of_str plain_lib (S ''abc'')
       = Inl (S ''invalid literal for int() with base 10: '' @ [39] @ S ''abc'' @ [39])
   \<and> map status_code (sent (fst (handle_status plain_lib (Fin 1000) (S ''abc'')))) = [400]
   \<and> int_of_str plain_lib (S ''600'') = Inr 600
   \<and> map status_code (sent (fst (handle_status plain_lib (Fin 1000) (S ''600'')))) = [400]"
  using status_scenario [of plain_lib "S ''404''" "Fin 1000"]
        status_scenario [of plain_lib "S ''abc''" "Fin 1000"]
        status_scenario [of plain_lib "S ''600''" "Fin 1000"]
  by (simp add: plain_int_def plain_str_repr_def py_int_404 py_int_abc py_int_600 json_reply_def)

text \<open>
  Claim C9. The status scenario is deterministic up to the timestamp: two runs on the
  same segment, at whatever times, send responses with the same status, whose JSON bodies
  have the same keys and the same value under every key but \<open>timestamp\<close>.
\<close>

theorem status_idempotent:
  "\<exists>st j1 j2.
     handle_status L now1 s = ([Send (json_reply L st (dumps L j1))], None)
     \<and> handle_status L now2 s = ([Send (json_reply L st (dumps L j2))], None)
     \<and> status_code (json_reply L st (dumps L j1)) = status_code (json_reply L st (dumps L j2))
     \<and> map fst (members j1) = map fst (members j2)
     \<and> filter (\<lambda>kv. fst kv \<noteq> S ''timestamp'') (members j1)
         = filter (\<lambda>kv. fst kv \<noteq> S ''timestamp'') (members j2)"
proof (cases "int_of_str L s")
  case (Inl m)
  then show ?thesis
    by (intro exI [of _ 400] exI [of _ "JObject [(S ''error'', JStr (S ''Invalid status code'')), (S ''provided'', JStr s)]"])
       (simp add: handle_status_eq json_reply_def)
next
  case (Inr code)
  show ?thesis
  proof (cases "code < 100 \<or> code > 599")
    case True
    with Inr show ?thesis
      by (intro exI [of _ 400] exI [of _ "JObject [(S ''error'', JStr (S ''Invalid status code'')), (S ''provided'', JStr s)]"])
         (simp add: handle_status_eq json_reply_def)
  next
    case False
    with Inr show ?thesis
      by (intro exI [of _ code]
            exI [of _ "JObject [(S ''requested_status'', JInt code),
                    (S ''message'', JStr (S ''Mock response with status '' @ str_of_int code)),
                    (S ''timestamp'', JFloat now1)]"]
            exI [of _ "JObject [(S ''requested_status'', JInt code),
                    (S ''message'', JStr (S ''Mock response with status '' @ str_of_int code)),
                    (S ''timestamp'', JFloat now2)]"])
         (simp add: handle_status_eq json_reply_def S_def)
  qed
qed

theorem status_idempotent_witness:
  "\<exists>st j1 j2.
     handle_status plain_lib (Fin 1000) (S ''404'')
       = ([Send (json_reply plain_lib st (dumps plain_lib j1))], None)
     \<and> handle_status plain_lib (Fin 2000) (S ''404'')
       = ([Send (json_reply plain_lib st (dumps plain_lib j2))], None)
     \<and> status_code (json_reply plain_lib st (dumps plain_lib j1))
       = status_code (json_reply plain_lib st (dumps plain_lib j2))
     \<and> map fst (members j1) = map fst (members j2)
     \<and> filter (\<lambda>kv. fst kv \<noteq> S ''timestamp'') (members j1)
         = filter (\<lambda>kv. fst kv \<noteq> S ''timestamp'') (members j2)"
  by (rule status_idempotent)

section \<open>The delay scenario\<close>

lemma time_sleep_small: "0 \<le> v \<Longrightarrow> v \<le> 3600 \<Longrightarrow> time_sleep (Fin v) = ([Sleep (Fin v)], None)"
  by (simp add: time_sleep_def)

lemma handle_delay_accept:
  assumes "float_of_str L s = Inr (Fin v)" and "0 \<le> v" and "v \<le> 300"
  shows "handle_delay L now s =
     ([Sleep (Fin v),
       Send (json_reply L 200 (dumps L (JObject
         [(S ''message'', JStr (S ''Response delayed by '' @ S (float_repr L (Fin v)) @ S '' seconds'')),
          (S ''delay'', JFloat (Fin v)),
          (S ''timestamp'', JFloat now)])))], None)"
  using assms
  by (simp add: handle_delay_def float_gt_def time_sleep_small send_dumps str_of_float_def)

lemma handle_delay_reject:
  assumes "\<not> (\<exists>x. float_of_str L s = Inr x \<and> in_delay_range x)"
  shows "handle_delay L now s =
     ([Send (json_reply L 400 (dumps L (JObject
         [(S ''error'', JStr (S ''Invalid delay: '' @ delay_error_text L s)),
          (S ''provided'', JStr s)])))], None)"
proof (cases "float_of_str L s")
  case (Inl m)
  then show ?thesis
    by (simp add: handle_delay_def delay_error_text_def send_dumps)
next
  case (Inr x)
  with assms have out: "\<not> in_delay_range x" by simp
  show ?thesis
  proof (cases x)
    case (Fin v)
    with out have "v < 0 \<or> 300 < v" by (auto simp: in_delay_range_def)
    with Inr Fin show ?thesis
      by (auto simp: handle_delay_def delay_error_text_def send_dumps float_gt_def)
  next
    case PInf
    with Inr show ?thesis
      by (simp add: handle_delay_def delay_error_text_def send_dumps float_gt_def)
  next
    case NInf
    with Inr show ?thesis
      by (simp add: handle_delay_def delay_error_text_def send_dumps float_gt_def)
  next
    case NaN
    with Inr show ?thesis
      by (simp add: handle_delay_def delay_error_text_def send_dumps float_gt_def time_sleep_def)
  qed
qed

text \<open>
  Claim C5. For every path segment \<open>s\<close>: if \<open>float(s)\<close> gives a value in \<open>[0, 300]\<close>,
  the delay scenario sleeps exactly that many seconds and then sends status 200 with the
  JSON body \<open>{message, delay, timestamp}\<close>, \<open>delay\<close> being the parsed value; if \<open>s\<close> is
  no float or the value is outside \<open>[0, 300]\<close>, it sends status 400 with a JSON error
  body and does not sleep.
\<close>

theorem delay_scenario:
  "(\<forall>v. float_of_str L s = Inr (Fin v) \<and> 0 \<le> v \<and> v \<le> 300 \<longrightarrow>
      handle_delay L now s =
        ([Sleep (Fin v),
          Send (json_reply L 200 (dumps L (JObject
            [(S ''message'', JStr (S ''Response delayed by '' @ S (float_repr L (Fin v)) @ S '' seconds'')),
             (S ''delay'', JFloat (Fin v)),
             (S ''timestamp'', JFloat now)])))], None))
   \<and> ((\<exists>m. float_of_str L s = Inl m) \<or> (\<exists>x. float_of_str L s = Inr x \<and> \<not> in_delay_range x) \<longrightarrow>
      handle_delay L now s =
        ([Send (json_reply L 400 (dumps L (JObject
            [(S ''error'', JStr (S ''Invalid delay: '' @ delay_error_text L s)),
             (S ''provided'', JStr s)])))], None)
      \<and> slept (fst (handle_delay L now s)) = [])"
proof (intro conjI allI impI)
  fix v
  assume "float_of_str L s = Inr (Fin v) \<and> 0 \<le> v \<and> v \<le> 300"
  then show "handle_delay L now s =
        ([Sleep (Fin v),
          Send (json_reply L 200 (dumps L (JObject
            [(S ''message'', JStr (S ''Response delayed by '' @ S (float_repr L (Fin v)) @ S '' seconds'')),
             (S ''delay'', JFloat (Fin v)),
             (S ''timestamp'', JFloat now)])))], None)"
    by (simp add: handle_delay_accept)
next
  assume "(\<exists>m. float_of_str L s = Inl m) \<or> (\<exists>x. float_of_str L s = Inr x \<and> \<not> in_delay_range x)"
  then have rej: "\<not> (\<exists>x. float_of_str L s = Inr x \<and> in_delay_range x)"
    by auto
  from handle_delay_reject [OF rej]
  show "handle_delay L now s =
        ([Send (json_reply L 400 (dumps L (JObject
            [(S ''error'', JStr (S ''Invalid delay: '' @ delay_error_text L s)),
             (S ''provided'', JStr s)])))], None)" .
  from handle_delay_reject [OF rej]
  show "slept (fst (handle_delay L now s)) = []" by simp
qed

theorem delay_scenario_witness:
  "float_of_str plain_lib (S ''2'') = Inr (Fin 2)
   \<and> slept (fst (handle_delay plain_lib (Fin 1000) (S ''2''))) = [Fin 2]
   \<and> map status_code (sent (fst (handle_delay plain_lib (Fin 1000) (S ''2'')))) = [200]
   \<and> float_of_str plain_lib (S ''500'') = Inr (Fin 500)
   \<and> slept (fst (handle_delay plain_lib (Fin 1000) (S ''500''))) = []
   \<and> map status_code (sent (fst (handle_delay plain_lib (Fin 1000) (S ''500'')))) = [400]
   \<and> float_of_str plain_lib (S ''abc'') = Inl (S ''could not convert string to float: '' @ [39] @ S ''abc'' @ [39])
   \<and> map status_code (sent (fst (handle_delay plain_lib (Fin 1000) (S ''abc'')))) = [400]"
  using delay_scenario [of plain_lib "S ''2''" "Fin 1000"]
        delay_scenario [of plain_lib "S ''500''" "Fin 1000"]
        delay_scenario [of plain_lib "S ''abc''" "Fin 1000"]
  by (simp add: plain_float_def plain_str_repr_def py_int_2 py_int_500 py_int_abc json_reply_def in_delay_range_def)

section \<open>The global delay\<close>

text \<open>
  Claim C2. With a global delay \<open>d \<ge> 0\<close> configured in \<open>MOCK_HTTP_DELAY\<close>, every request
  that reaches the routing, on whatever route (the timeout and delay scenarios included),
  first sleeps \<open>d\<close> seconds (no sleep at all for \<open>d = 0\<close>) and then does what its route does,
  so the time slept is \<open>d\<close> plus the time the route sleeps; for the delay scenario with an
  accepted number of seconds \<open>v\<close> the two delays add up: the handler sleeps \<open>d\<close>, then \<open>v\<close>,
  then sends the response, \<open>d + v\<close> seconds in all.
\<close>

theorem global_delay_additive:
  assumes "parse_path L req = Inr (path_parts, query_params)"
    and "request_body L method req = Inr body"
    and "float_of_str L (getenv (environ P) (S ''MOCK_HTTP_DELAY'') (S ''0'')) = Inr (Fin d)"
    and "0 \<le> d" and "d * 1000000000 < 2 ^ 63"
  shows "fst (handle_request L P method req)
           = (if 0 < d then [Sleep (Fin d)] else [])
             @ fst (route L P method req path_parts query_params body)
         \<and> snd (handle_request L P method req)
           = snd (route L P method req path_parts query_params body)
         \<and> total_sleep (fst (handle_request L P method req))
           = d + total_sleep (fst (route L P method req path_parts query_params body))
         \<and> (\<forall>v. path_parts \<noteq> [] \<and> path_parts ! 0 = S ''delay'' \<and> length path_parts > 1
                \<and> float_of_str L (path_parts ! 1) = Inr (Fin v) \<and> 0 \<le> v \<and> v \<le> 300 \<longrightarrow>
              (\<exists>r. fst (handle_request L P method req)
                     = (if 0 < d then [Sleep (Fin d)] else []) @ [Sleep (Fin v), Send r]
                   \<and> status_code r = 200)
              \<and> total_sleep (fst (handle_request L P method req)) = d + v)"
proof -
  have run: "handle_request L P method req
      = ((if 0 < d then [Sleep (Fin d)] else [])
           @ fst (route L P method req path_parts query_params body),
         snd (route L P method req path_parts query_params body))"
    using assms by (simp add: handle_request_dispatch apply_default_delay_ok)
  have total: "total_sleep (fst (handle_request L P method req))
      = d + total_sleep (fst (route L P method req path_parts query_params body))"
    using \<open>0 \<le> d\<close> by (simp add: run total_sleep_append) (simp add: total_sleep_def)
  have delay: "(\<exists>r. fst (handle_request L P method req)
                     = (if 0 < d then [Sleep (Fin d)] else []) @ [Sleep (Fin v), Send r]
                   \<and> status_code r = 200)
              \<and> total_sleep (fst (handle_request L P method req)) = d + v"
    if "path_parts \<noteq> [] \<and> path_parts ! 0 = S ''delay'' \<and> length path_parts > 1
                \<and> float_of_str L (path_parts ! 1) = Inr (Fin v) \<and> 0 \<le> v \<and> v \<le> 300" for v
  proof -
    from that have "route L P method req path_parts query_params body
        = handle_delay L (time_time P) (path_parts ! 1)"
      by (simp add: route_delay)
    with that have r: "fst (route L P method req path_parts query_params body)
        = [Sleep (Fin v),
           Send (json_reply L 200 (dumps L (JObject
             [(S ''message'', JStr (S ''Response delayed by '' @ S (float_repr L (Fin v)) @ S '' seconds'')),
              (S ''delay'', JFloat (Fin v)),
              (S ''timestamp'', JFloat (time_time P))])))]"
      by (simp add: handle_delay_accept)
    have "total_sleep (fst (route L P method req path_parts query_params body)) = v"
      by (simp add: r total_sleep_def)
    with total show ?thesis
      by (simp add: run r json_reply_def)
  qed
  from run total delay show ?thesis by simp
qed

theorem global_delay_additive_witness:
  "slept (fst (handle_request plain_lib (process_at [(S ''MOCK_HTTP_DELAY'', S ''3'')]) GET
                 (request_for ''/delay/2''))) = [Fin 3, Fin 2]
   \<and> map status_code (sent (fst (handle_request plain_lib (process_at [(S ''MOCK_HTTP_DELAY'', S ''3'')]) GET
                 (request_for ''/delay/2'')))) = [200]
   \<and> total_sleep (fst (handle_request plain_lib (process_at [(S ''MOCK_HTTP_DELAY'', S ''3'')]) GET
                 (request_for ''/delay/2''))) = 5"
proof -
  have a: "0 \<le> (3::rat)" and b: "(3::rat) * 1000000000 < 2 ^ 63"
    by simp_all
  note th = global_delay_additive [OF parse_delay_2 request_body_GET delay_3 a b]
  from th [THEN conjunct2, THEN conjunct2, THEN conjunct2, THEN spec, of 2]
  show ?thesis
    by (auto simp: plain_float_def py_int_2)
qed

section \<open>The timeout scenario\<close>

text \<open>
  Claim C3. The timeout scenario never produces a response: the handler prints a line on
  the console, sleeps 3600 seconds and returns, and sends nothing. No run of the request
  handler on a request routed to the timeout scenario sends a response, whatever happens
  before the routing; when the routing is reached, the run is the global delay, the line
  on the console and the sleep of 3600 seconds, and it ends without an exception.
\<close>

theorem timeout_never_responds:
  "handle_timeout
     = ([Print (S ''[INFO] Timeout endpoint called - hanging connection''), Sleep (Fin 3600)], None)
   \<and> sent (fst handle_timeout) = []
   \<and> (\<forall>path_parts query_params.
        parse_path L req = Inr (path_parts, query_params) \<and> path_parts \<noteq> []
        \<and> path_parts ! 0 = S ''timeout'' \<longrightarrow>
          sent (fst (handle_request L P method req)) = []
          \<and> (\<forall>body t. request_body L method req = Inr body \<and> apply_default_delay L P = (t, None) \<longrightarrow>
                handle_request L P method req
                  = (t @ [Print (S ''[INFO] Timeout endpoint called - hanging connection''),
                          Sleep (Fin 3600)], None)))"
proof (intro conjI allI impI)
  show "handle_timeout
     = ([Print (S ''[INFO] Timeout endpoint called - hanging connection''), Sleep (Fin 3600)], None)"
    by (rule handle_timeout_eq)
  show "sent (fst handle_timeout) = []"
    by (simp add: handle_timeout_eq)
next
  fix path_parts query_params
  assume routed: "parse_path L req = Inr (path_parts, query_params) \<and> path_parts \<noteq> []
        \<and> path_parts ! 0 = S ''timeout''"
  show "sent (fst (handle_request L P method req)) = []"
  proof (cases "request_body L method req")
    case (Inl e)
    with routed show ?thesis by (simp add: handle_request_def raise_def)
  next
    case (Inr body)
    with routed have "handle_request L P method req = seq (apply_default_delay L P) handle_timeout"
      by (simp add: handle_request_dispatch route_timeout)
    then show ?thesis
      using sent_apply_default_delay [of L P]
      by (cases "apply_default_delay L P") (auto simp: seq_def sent_append handle_timeout_eq split: option.splits)
  qed
next
  fix path_parts query_params body t
  assume routed: "parse_path L req = Inr (path_parts, query_params) \<and> path_parts \<noteq> []
        \<and> path_parts ! 0 = S ''timeout''"
    and ok: "request_body L method req = Inr body \<and> apply_default_delay L P = (t, None)"
  then show "handle_request L P method req
                  = (t @ [Print (S ''[INFO] Timeout endpoint called - hanging connection''),
                          Sleep (Fin 3600)], None)"
    by (simp add: handle_request_dispatch route_timeout handle_timeout_eq)
qed

theorem timeout_never_responds_witness:
  "parse_path plain_lib (request_for ''/timeout'') = Inr ([S ''timeout''], [])
   \<and> sent (fst (handle_request plain_lib (process_at [(S ''MOCK_HTTP_DELAY'', S ''3'')]) GET
                  (request_for ''/timeout''))) = []
   \<and> handle_request plain_lib (process_at [(S ''MOCK_HTTP_DELAY'', S ''3'')]) GET (request_for ''/timeout'')
       = ([Sleep (Fin 3), Print (S ''[INFO] Timeout endpoint called - hanging connection''),
           Sleep (Fin 3600)], None)"
  using timeout_never_responds [of plain_lib "request_for ''/timeout''"
          "process_at [(S ''MOCK_HTTP_DELAY'', S ''3'')]" GET]
  by (simp add: parse_timeout request_body_GET default_delay_3)

section \<open>The whatsapp scenario\<close>

text \<open>\<open>parse_qs\<close> gives every name a non-empty list of values; on such a dict the
  handler finds the supplied values without an \<open>IndexError\<close>.\<close>

lemma first_value_supplied:
  assumes "\<forall>kv\<in>set query_params. snd kv \<noteq> []"
  shows "first_value query_params name = Inr (supplied query_params name)"
proof (cases "map_of query_params name")
  case None
  then show ?thesis by (simp add: first_value_def supplied_def)
next
  case (Some vs)
  then have "(name, vs) \<in> set query_params" by (rule map_of_SomeD)
  with assms have "vs \<noteq> []" by auto
  with Some show ?thesis
    by (cases vs) (simp_all add: first_value_def supplied_def)
qed

lemma handle_whatsapp_missing:
  assumes "\<forall>kv\<in>set query_params. snd kv \<noteq> []"
    and "missing_or_empty query_params (S ''phone'') \<or> missing_or_empty query_params (S ''apikey'')
         \<or> missing_or_empty query_params (S ''text'')"
  shows "handle_whatsapp L now query_params =
     ([Send (json_reply L 400 (dumps L (JObject
        [(S ''error'', JStr (S ''Missing required parameters'')),
         (S ''required'', JList [JStr (S ''phone''), JStr (S ''apikey''), JStr (S ''text'')]),
         (S ''provided'', JList (map (\<lambda>kv. JStr (fst kv)) query_params))])))], None)"
  using assms(2)
  by (auto simp: handle_whatsapp_def first_value_supplied [OF assms(1)] missing_or_empty_def
        py_not_def send_dumps)

lemma handle_whatsapp_complete:
  assumes "\<forall>kv\<in>set query_params. snd kv \<noteq> []"
    and "supplied query_params (S ''phone'') = Some phone" and "phone \<noteq> []"
    and "supplied query_params (S ''apikey'') = Some apikey" and "apikey \<noteq> []"
    and "supplied query_params (S ''text'') = Some text" and "text \<noteq> []"
  shows "handle_whatsapp L now query_params =
     ([Send (json_reply L 200 (dumps L (JObject
        [(S ''message'', JStr (S ''WhatsApp message queued successfully'')),
         (S ''phone'', JStr phone),
         (S ''text'', JStr (if length text \<le> 50 then text else take 50 text @ S ''...'')),
         (S ''timestamp'', JFloat now)])))], None)"
  using assms(2-)
  by (simp add: handle_whatsapp_def first_value_supplied [OF assms(1)] py_not_def send_dumps)

text \<open>
  Claim C4. On the query parameters \<open>parse_qs\<close> can supply (no name with an empty list
  of values), the whatsapp scenario sends status 400 with the body
  \<open>{error: "Missing required parameters", required: ["phone", "apikey", "text"],
  provided: the keys of the query}\<close> if and only if one of \<open>phone\<close>, \<open>apikey\<close>, \<open>text\<close> is
  missing or empty; otherwise it sends status 200 with the body \<open>{message, phone, text,
  timestamp}\<close>, where \<open>phone\<close> is the supplied value and \<open>text\<close> is the supplied value if
  it has at most 50 characters and its first 50 characters followed by three dots if it
  is longer.
\<close>

theorem whatsapp_scenario:
  assumes "\<forall>kv\<in>set query_params. snd kv \<noteq> []"
  shows "(missing_or_empty query_params (S ''phone'') \<or> missing_or_empty query_params (S ''apikey'')
          \<or> missing_or_empty query_params (S ''text'') \<longrightarrow>
            handle_whatsapp L now query_params =
              ([Send (json_reply L 400 (dumps L (JObject
                 [(S ''error'', JStr (S ''Missing required parameters'')),
                  (S ''required'', JList [JStr (S ''phone''), JStr (S ''apikey''), JStr (S ''text'')]),
                  (S ''provided'', JList (map (\<lambda>kv. JStr (fst kv)) query_params))])))], None))
     \<and> (\<forall>phone apikey text.
          supplied query_params (S ''phone'') = Some phone \<and> phone \<noteq> []
          \<and> supplied query_params (S ''apikey'') = Some apikey \<and> apikey \<noteq> []
          \<and> supplied query_params (S ''text'') = Some text \<and> text \<noteq> [] \<longrightarrow>
            handle_whatsapp L now query_params =
              ([Send (json_reply L 200 (dumps L (JObject
                 [(S ''message'', JStr (S ''WhatsApp message queued successfully'')),
                  (S ''phone'', JStr phone),
                  (S ''text'', JStr (if length text \<le> 50 then text else take 50 text @ S ''...'')),
                  (S ''timestamp'', JFloat now)])))], None))
     \<and> ((map status_code (sent (fst (handle_whatsapp L now query_params))) = [400])
          = (missing_or_empty query_params (S ''phone'') \<or> missing_or_empty query_params (S ''apikey'')
             \<or> missing_or_empty query_params (S ''text'')))"
proof (cases "missing_or_empty query_params (S ''phone'') \<or> missing_or_empty query_params (S ''apikey'')
          \<or> missing_or_empty query_params (S ''text'')")
  case True
  from handle_whatsapp_missing [OF assms True, of L now] True show ?thesis
    by (auto simp: json_reply_def missing_or_empty_def)
next
  case False
  then obtain phone apikey msg where v:
    "supplied query_params (S ''phone'') = Some phone" "phone \<noteq> []"
    "supplied query_params (S ''apikey'') = Some apikey" "apikey \<noteq> []"
    "supplied query_params (S ''text'') = Some msg" "msg \<noteq> []"
    by (auto simp: missing_or_empty_def)
  from handle_whatsapp_complete [OF assms v, of L now] False v show ?thesis
    by (simp add: json_reply_def)
qed

theorem whatsapp_scenario_witness:
  "handle_whatsapp plain_lib (Fin 1000)
       [(S ''phone'', [S ''123'']), (S ''apikey'', [S ''abc'']), (S ''text'', [S ''hi''])]
     = ([Send (json_reply plain_lib 200 (dumps plain_lib (JObject
          [(S ''message'', JStr (S ''WhatsApp message queued successfully'')),
           (S ''phone'', JStr (S ''123'')),
           (S ''text'', JStr (S ''hi'')),
           (S ''timestamp'', JFloat (Fin 1000))])))], None)
   \<and> handle_whatsapp plain_lib (Fin 1000)
       [(S ''phone'', [S ''123'']), (S ''apikey'', [S ''abc'']), (S ''text'', [replicate 60 120])]
     = ([Send (json_reply plain_lib 200 (dumps plain_lib (JObject
          [(S ''message'', JStr (S ''WhatsApp message queued successfully'')),
           (S ''phone'', JStr (S ''123'')),
           (S ''text'', JStr (replicate 50 120 @ S ''...'')),
           (S ''timestamp'', JFloat (Fin 1000))])))], None)
   \<and> map status_code (sent (fst (handle_whatsapp plain_lib (Fin 1000)
       [(S ''phone'', [S ''123'']), (S ''text'', [S ''hi''])]))) = [400]"
proof -
  have a: "\<forall>kv\<in>set [(S ''phone'', [S ''123'']), (S ''apikey'', [S ''abc'']), (S ''text'', [S ''hi''])].
             snd kv \<noteq> []"
    by (simp add: S_def)
  have b: "\<forall>kv\<in>set [(S ''phone'', [S ''123'']), (S ''apikey'', [S ''abc'']),
                      (S ''text'', [replicate 60 (120::nat)])]. snd kv \<noteq> []"
    by (simp add: S_def)
  have c: "\<forall>kv\<in>set [(S ''phone'', [S ''123'']), (S ''text'', [S ''hi''])]. snd kv \<noteq> []"
    by (simp add: S_def)
  have sa: "supplied [(S ''phone'', [S ''123'']), (S ''apikey'', [S ''abc'']), (S ''text'', [S ''hi''])]
              (S ''phone'') = Some (S ''123'')"
    "supplied [(S ''phone'', [S ''123'']), (S ''apikey'', [S ''abc'']), (S ''text'', [S ''hi''])]
              (S ''apikey'') = Some (S ''abc'')"
    "supplied [(S ''phone'', [S ''123'']), (S ''apikey'', [S ''abc'']), (S ''text'', [S ''hi''])]
              (S ''text'') = Some (S ''hi'')"
    by (simp_all add: supplied_def S_def)
  have sb: "supplied [(S ''phone'', [S ''123'']), (S ''apikey'', [S ''abc'']), (S ''text'', [replicate 60 120])]
              (S ''phone'') = Some (S ''123'')"
    "supplied [(S ''phone'', [S ''123'']), (S ''apikey'', [S ''abc'']), (S ''text'', [replicate 60 120])]
              (S ''apikey'') = Some (S ''abc'')"
    "supplied [(S ''phone'', [S ''123'']), (S ''apikey'', [S ''abc'']), (S ''text'', [replicate 60 120])]
              (S ''text'') = Some (replicate 60 120)"
    by (simp_all add: supplied_def S_def)
  have sc: "missing_or_empty [(S ''phone'', [S ''123'']), (S ''text'', [S ''hi''])] (S ''apikey'')"
    by (simp add: missing_or_empty_def supplied_def S_def)
  have ne: "S ''123'' \<noteq> []" "S ''abc'' \<noteq> []" "S ''hi'' \<noteq> []"
    by (simp_all add: S_def)
  from whatsapp_scenario [OF a, of plain_lib "Fin 1000", THEN conjunct2, THEN conjunct1,
         THEN spec, THEN spec, THEN spec, of "S ''123''" "S ''abc''" "S ''hi''"]
  have 1: "handle_whatsapp plain_lib (Fin 1000)
       [(S ''phone'', [S ''123'']), (S ''apikey'', [S ''abc'']), (S ''text'', [S ''hi''])]
     = ([Send (json_reply plain_lib 200 (dumps plain_lib (JObject
          [(S ''message'', JStr (S ''WhatsApp message queued successfully'')),
           (S ''phone'', JStr (S ''123'')),
           (S ''text'', JStr (S ''hi'')),
           (S ''timestamp'', JFloat (Fin 1000))])))], None)"
    using sa ne by (simp add: S_def)
  from whatsapp_scenario [OF b, of plain_lib "Fin 1000", THEN conjunct2, THEN conjunct1,
         THEN spec, THEN spec, THEN spec, of "S ''123''" "S ''abc''" "replicate 60 120"]
  have 2: "handle_whatsapp plain_lib (Fin 1000)
       [(S ''phone'', [S ''123'']), (S ''apikey'', [S ''abc'']), (S ''text'', [replicate 60 120])]
     = ([Send (json_reply plain_lib 200 (dumps plain_lib (JObject
          [(S ''message'', JStr (S ''WhatsApp message queued successfully'')),
           (S ''phone'', JStr (S ''123'')),
           (S ''text'', JStr (replicate 50 120 @ S ''...'')),
           (S ''timestamp'', JFloat (Fin 1000))])))], None)"
    using sb ne by simp
  from whatsapp_scenario [OF c, of plain_lib "Fin 1000", THEN conjunct2, THEN conjunct2]
  have 3: "map status_code (sent (fst (handle_whatsapp plain_lib (Fin 1000)
       [(S ''phone'', [S ''123'']), (S ''text'', [S ''hi''])]))) = [400]"
    using sc by simp
  from 1 2 3 show ?thesis by simp
qed

section \<open>The envelope of every response\<close>

lemma all_sent_raise [simp]: "all_sent Q (raise e)"
  by (simp add: all_sent_def raise_def)

lemma all_sent_nil [simp]: "all_sent Q ([], x)"
  by (simp add: all_sent_def)

lemma all_sent_time_sleep [simp]: "all_sent Q (time_sleep x)"
  by (simp add: all_sent_def sent_time_sleep)

lemma all_sent_seq: "all_sent Q a \<Longrightarrow> all_sent Q b \<Longrightarrow> all_sent Q (seq a b)"
  by (cases a) (auto simp: all_sent_def seq_def sent_append split: option.splits)

lemma all_sent_except:
  "all_sent Q r \<Longrightarrow> (\<And>m. all_sent Q (h m)) \<Longrightarrow> all_sent Q (except_ValueError r h)"
  by (cases r) (auto simp: except_ValueError_def all_sent_def sent_append split: option.splits)

lemma all_sent_single [simp]: "all_sent Q ([Send r], x) = Q r"
  by (simp add: all_sent_def)

lemma header_names_distinct [simp]:
  "S ''Content-Length'' \<noteq> S ''Content-Type''"
  "S ''Content-Length'' \<noteq> S ''Access-Control-Allow-Origin''"
  "S ''Content-Length'' \<noteq> S ''Server''"
  "S ''Access-Control-Allow-Origin'' \<noteq> S ''Content-Type''"
  "S ''Server'' \<noteq> S ''Content-Type''"
  "S ''Server'' \<noteq> S ''Access-Control-Allow-Origin''"
  by (simp_all add: S_def)

lemma send_response_cases:
  "send_response L now st ct body
   = (case utf8_encode (case body of Some b \<Rightarrow> b
         | None \<Rightarrow> dumps L (JObject
               [(S ''status'', JInt st),
                (S ''message'', JStr (case responses L st of Some m \<Rightarrow> m | None \<Rightarrow> S ''Unknown'')),
                (S ''timestamp'', JFloat now)])) of
        Inl e \<Rightarrow> raise e
      | Inr bytes \<Rightarrow>
          ([Send \<lparr>status_code = st,
                  header_lines =
                    [(S ''Content-Type'', ct),
                     (S ''Access-Control-Allow-Origin'', S ''*''),
                     (S ''Server'', S ''painlessMesh-MockServer/1.0''),
                     (S ''Content-Length'', str_of_nat (length bytes))],
                  body_bytes = bytes\<rparr>], None))"
  by (simp add: send_response_def Let_def)

lemma json_envelope_reply [simp]: "json_envelope (json_reply L st text)"
  by (simp add: json_envelope_def envelope_def header_def json_reply_def)

lemma all_sent_send_dumps [simp]:
  "all_sent json_envelope (send_response L now st application_json (Some (dumps L j)))"
  by (simp add: send_dumps)

lemma all_sent_send_dumps_indent [simp]:
  "all_sent json_envelope (send_response L now st application_json (Some (dumps_indent L n j)))"
  by (simp add: send_dumps_indent)

lemma all_sent_handle_default: "all_sent json_envelope (handle_default L P)"
  by (simp add: handle_default_def split: sum.splits)

lemma all_sent_handle_status: "all_sent json_envelope (handle_status L now s)"
  by (simp add: handle_status_eq split: sum.splits)

lemma all_sent_handle_delay: "all_sent json_envelope (handle_delay L now s)"
  unfolding handle_delay_def
  by (intro all_sent_except) (auto intro!: all_sent_seq split: sum.splits)

lemma all_sent_handle_timeout: "all_sent Q handle_timeout"
  by (simp add: handle_timeout_eq all_sent_def)

lemma all_sent_handle_echo: "all_sent json_envelope (handle_echo L now req method q body)"
  by (simp add: handle_echo_def)

lemma all_sent_handle_whatsapp: "all_sent json_envelope (handle_whatsapp L now q)"
  by (simp add: handle_whatsapp_def split: sum.splits option.splits)

lemma all_sent_handle_health: "all_sent json_envelope (handle_health L P)"
  by (simp add: handle_health_def)

lemma all_sent_handle_not_found: "all_sent json_envelope (handle_not_found L now req)"
  by (simp add: handle_not_found_def)

lemma all_sent_route: "all_sent json_envelope (route L P method req parts q body)"
  by (simp add: route_def all_sent_handle_default all_sent_handle_status all_sent_handle_delay
        all_sent_handle_timeout all_sent_handle_echo all_sent_handle_whatsapp
        all_sent_handle_health all_sent_handle_not_found)

lemma all_sent_apply_default_delay: "all_sent Q (apply_default_delay L P)"
  by (simp add: all_sent_def sent_apply_default_delay)

lemma all_sent_handle_request: "all_sent json_envelope (handle_request L P method req)"
  by (auto simp: handle_request_def all_sent_route all_sent_apply_default_delay
        intro!: all_sent_seq split: sum.splits)

lemma send_response_envelope:
  "\<forall>r\<in>set (sent (fst (send_response L now st ct body))).
       envelope r
       \<and> header r (S ''Content-Length'') = Some (str_of_nat (length (body_bytes r)))
       \<and> header r (S ''Access-Control-Allow-Origin'') = Some (S ''*'')
       \<and> header r (S ''Content-Type'') = Some ct
       \<and> header r (S ''Server'') = Some (S ''painlessMesh-MockServer/1.0'')
       \<and> status_code r = st
       \<and> (\<forall>b. body = Some b \<longrightarrow> utf8_encode b = Inr (body_bytes r))"
  by (auto simp: send_response_cases raise_def envelope_def header_def split: sum.splits)

lemma handle_request_envelope:
  "\<forall>r\<in>set (sent (fst (handle_request L P method req))).
       envelope r
       \<and> header r (S ''Content-Length'') = Some (str_of_nat (length (body_bytes r)))
       \<and> header r (S ''Access-Control-Allow-Origin'') = Some (S ''*'')
       \<and> header r (S ''Content-Type'') = Some (S ''application/json'')
       \<and> header r (S ''Server'') = Some (S ''painlessMesh-MockServer/1.0'')"
proof
  fix r
  assume "r \<in> set (sent (fst (handle_request L P method req)))"
  with all_sent_handle_request [of L P _ req] have "json_envelope r"
    by (simp add: all_sent_def list_all_iff)
  then show "envelope r
       \<and> header r (S ''Content-Length'') = Some (str_of_nat (length (body_bytes r)))
       \<and> header r (S ''Access-Control-Allow-Origin'') = Some (S ''*'')
       \<and> header r (S ''Content-Type'') = Some (S ''application/json'')
       \<and> header r (S ''Server'') = Some (S ''painlessMesh-MockServer/1.0'')"
    by (simp add: json_envelope_def envelope_def)
qed

lemma status_404_run:
  "handle_request plain_lib (process_at []) GET (request_for ''/status/404'')
   = ([Send (json_reply plain_lib 404 (dumps plain_lib (JObject
        [(S ''requested_status'', JInt 404),
         (S ''message'', JStr (S ''Mock response with status '' @ str_of_int 404)),
         (S ''timestamp'', JFloat (Fin 1000))])))], None)"
proof -
  have "parse_path plain_lib (request_for ''/status/404'') = Inr ([S ''status'', S ''404''], [])"
    by (simp add: parse_path_def request_for_def plain_urlparse_def plain_parse_qs_def S_def strip_char_def)
  moreover have "time_time (process_at []) = Fin 1000"
    by (simp add: process_at_def)
  ultimately show ?thesis
    by (simp add: handle_request_dispatch [OF _ request_body_GET] default_delay_unset route_def
          handle_status_eq plain_int_def py_int_404)
qed

text \<open>
  Claim C7. Every response sent through \<open>_send_response\<close>, whatever the status, the
  content type and the body, carries a \<open>Content-Length\<close> header equal to the number of
  bytes of the UTF-8 encoding of the body, \<open>Access-Control-Allow-Origin: *\<close>, the
  \<open>Content-Type\<close> header and the \<open>Server\<close> header; and so does every response sent in
  any run of the request handler, on every route.
\<close>

theorem response_envelope:
  "(\<forall>r\<in>set (sent (fst (send_response L now st ct body))).
       envelope r
       \<and> header r (S ''Content-Length'') = Some (str_of_nat (length (body_bytes r)))
       \<and> header r (S ''Access-Control-Allow-Origin'') = Some (S ''*'')
       \<and> header r (S ''Content-Type'') = Some ct
       \<and> header r (S ''Server'') = Some (S ''painlessMesh-MockServer/1.0'')
       \<and> status_code r = st
       \<and> (\<forall>b. body = Some b \<longrightarrow> utf8_encode b = Inr (body_bytes r)))
   \<and> (\<forall>r\<in>set (sent (fst (handle_request L P method req))).
       envelope r
       \<and> header r (S ''Content-Length'') = Some (str_of_nat (length (body_bytes r)))
       \<and> header r (S ''Access-Control-Allow-Origin'') = Some (S ''*'')
       \<and> header r (S ''Content-Type'') = Some (S ''application/json'')
       \<and> header r (S ''Server'') = Some (S ''painlessMesh-MockServer/1.0''))"
  using send_response_envelope [of L now st ct body] handle_request_envelope [of L P _ req]
  by (rule conjI)

theorem response_envelope_witness:
  "sent (fst (send_response plain_lib (Fin 1000) 200 (S ''text/plain'') (Some [104, 233, 8364])))
     = [\<lparr>status_code = 200,
         header_lines = [(S ''Content-Type'', S ''text/plain''),
                         (S ''Access-Control-Allow-Origin'', S ''*''),
                         (S ''Server'', S ''painlessMesh-MockServer/1.0''),
                         (S ''Content-Length'', S ''6'')],
         body_bytes = [104, 195, 169, 226, 130, 172]\<rparr>]
   \<and> envelope \<lparr>status_code = 200,
         header_lines = [(S ''Content-Type'', S ''text/plain''),
                         (S ''Access-Control-Allow-Origin'', S ''*''),
                         (S ''Server'', S ''painlessMesh-MockServer/1.0''),
                         (S ''Content-Length'', S ''6'')],
         body_bytes = [104, 195, 169, 226, 130, 172]\<rparr>
   \<and> map status_code (sent (fst (handle_request plain_lib (process_at []) GET
                                   (request_for ''/status/404'')))) = [404]
   \<and> list_all envelope (sent (fst (handle_request plain_lib (process_at []) GET
                                   (request_for ''/status/404''))))"
proof -
  have s: "sent (fst (send_response plain_lib (Fin 1000) 200 (S ''text/plain'') (Some [104, 233, 8364])))
     = [\<lparr>status_code = 200,
         header_lines = [(S ''Content-Type'', S ''text/plain''),
                         (S ''Access-Control-Allow-Origin'', S ''*''),
                         (S ''Server'', S ''painlessMesh-MockServer/1.0''),
                         (S ''Content-Length'', S ''6'')],
         body_bytes = [104, 195, 169, 226, 130, 172]\<rparr>]"
    by (simp add: send_response_def utf8_encode_def is_surrogate_def utf8_char_def
          str_of_nat.simps S_def)
  from response_envelope [of plain_lib "Fin 1000" 200 "S ''text/plain''" "Some [104, 233, 8364]"
         "process_at []" GET "request_for ''/status/404''"] s
  show ?thesis
    by (simp add: status_404_run json_reply_def)
qed

section \<open>The segments of a path\<close>

lemma split_on_not_Nil [simp]: "split_on c s \<noteq> []"
  by (induction s) auto

lemma join_split_on: "join [c] (split_on c s) = s"
proof (induction s)
  case Nil
  show ?case by simp
next
  case (Cons x xs)
  obtain p ps where ps: "split_on c xs = p # ps"
    by (cases "split_on c xs") auto
  with Cons show ?case
    by (cases ps) auto
qed

lemma split_on_no_separator: "p \<in> set (split_on c s) \<Longrightarrow> c \<notin> set p"
proof (induction s arbitrary: p)
  case Nil
  then show ?case by simp
next
  case (Cons x xs)
  obtain q qs where qs: "split_on c xs = q # qs"
    by (cases "split_on c xs") auto
  with Cons show ?case
    by (auto split: if_splits)
qed

lemma hd_split_on: "(hd (split_on c s) = []) = (s = [] \<or> hd s = c)"
  by (cases s) auto

lemma split_on_snoc: "split_on c (s @ [x]) =
    (if x = c then split_on c s @ [[]]
     else butlast (split_on c s) @ [last (split_on c s) @ [x]])"
proof (induction s)
  case Nil
  show ?case by simp
next
  case (Cons y ys)
  obtain q qs where qs: "split_on c ys = q # qs"
    by (cases "split_on c ys") auto
  with Cons show ?case
    by (cases qs) (auto split: if_splits)
qed

lemma last_split_on: "(last (split_on c s) = []) = (s = [] \<or> last s = c)"
  by (induction s rule: rev_induct) (auto simp: split_on_snoc)

lemma nonempty_split_on_dropWhile:
  "filter (\<lambda>p. p \<noteq> []) (split_on c (dropWhile (\<lambda>x. x = c) s)) = filter (\<lambda>p. p \<noteq> []) (split_on c s)"
  by (induction s) auto

lemma nonempty_split_on_strip_end:
  "filter (\<lambda>p. p \<noteq> []) (split_on c (rev (dropWhile (\<lambda>x. x = c) (rev s))))
   = filter (\<lambda>p. p \<noteq> []) (split_on c s)"
  by (induction s rule: rev_induct) (auto simp: split_on_snoc)

lemma nonempty_split_on_strip:
  "filter (\<lambda>p. p \<noteq> []) (split_on c (strip_char c s)) = filter (\<lambda>p. p \<noteq> []) (split_on c s)"
  unfolding strip_char_def
  by (simp only: nonempty_split_on_strip_end nonempty_split_on_dropWhile)

lemma dropWhile_snoc_keep: "\<not> P x \<Longrightarrow> \<exists>ys. dropWhile P (zs @ [x]) = ys @ [x]"
  by (induction zs) auto

lemma strip_char_ends:
  assumes "strip_char c s \<noteq> []"
  shows "hd (strip_char c s) \<noteq> c \<and> last (strip_char c s) \<noteq> c"
proof -
  let ?P = "\<lambda>x. x = c"
  let ?t = "dropWhile ?P s"
  let ?u = "dropWhile ?P (rev ?t)"
  have s: "strip_char c s = rev ?u" by (simp add: strip_char_def)
  with assms have u: "?u \<noteq> []" by simp
  then have "hd ?u \<noteq> c" using hd_dropWhile [of ?P "rev ?t"] by simp
  with u have l: "last (strip_char c s) \<noteq> c" by (simp add: s last_rev)
  from u have t: "?t \<noteq> []" by (metis dropWhile.simps(1) rev.simps(1))
  then obtain x xs where x: "?t = x # xs" by (cases ?t) auto
  from t have "hd ?t \<noteq> c" using hd_dropWhile [of ?P s] by simp
  with x have "\<not> ?P x" by simp
  then obtain ys where "dropWhile ?P (rev xs @ [x]) = ys @ [x]"
    using dropWhile_snoc_keep [of ?P x "rev xs"] by blast
  with x have "strip_char c s = x # rev ys" by (simp add: s)
  with \<open>\<not> ?P x\<close> l show ?thesis by simp
qed

lemma urlparse_echo_x: "urlparse plain_lib (path (request_for ''/echo//x'')) = Inr (S ''/echo//x'', [])"
  by (simp add: request_for_def plain_urlparse_def S_def)

text \<open>
  Claim C6, as the specification states it, fails: the root path gives the one-element
  sequence with the empty string, not the empty sequence, and a path with consecutive
  slashes gives an empty segment. The counterexample evaluates \<open>_parse_path\<close> on the
  paths \<open>/\<close> and \<open>/echo//x\<close>.
\<close>

theorem parse_path_segments_counterexample:
  "parse_path plain_lib (request_for ''/'') = Inr ([[]], [])
   \<and> spec_segments (S ''/'') = []
   \<and> parse_path plain_lib (request_for ''/echo//x'') = Inr ([S ''echo'', [], S ''x''], [])
   \<and> spec_segments (S ''/echo//x'') = [S ''echo'', S ''x'']
   \<and> [] \<in> set [S ''echo'', [], S ''x'']"
  by (simp add: parse_root parse_echo_x spec_segments_def S_def)

text \<open>
  Claim C6, amended. For every request path, \<open>_parse_path\<close> returns the pieces obtained
  by removing every leading and trailing slash from the path component of the URL and
  splitting the rest on the slash. The sequence is never empty and no piece contains a
  slash; joined with slashes the pieces give back the stripped path; without its empty
  pieces the sequence is the specification's sequence of non-empty components. A path of
  slashes only (the root) gives the single empty piece, which the router sends to the
  default scenario; otherwise the first and the last piece are not empty, while
  consecutive slashes inside the path leave empty pieces.
\<close>

theorem parse_path_segments:
  assumes "urlparse L (path req) = Inr (p, q)"
  shows "parse_path L req = Inr (split_on 47 (strip_char 47 p), parse_qs L q)
     \<and> split_on 47 (strip_char 47 p) \<noteq> []
     \<and> join [47] (split_on 47 (strip_char 47 p)) = strip_char 47 p
     \<and> (\<forall>s\<in>set (split_on 47 (strip_char 47 p)). 47 \<notin> set s)
     \<and> filter (\<lambda>s. s \<noteq> []) (split_on 47 (strip_char 47 p)) = spec_segments p
     \<and> (strip_char 47 p = [] \<longrightarrow>
          split_on 47 (strip_char 47 p) = [[]]
          \<and> route L P m req (split_on 47 (strip_char 47 p)) (parse_qs L q) body
              = handle_default L P)
     \<and> (strip_char 47 p \<noteq> [] \<longrightarrow>
          hd (split_on 47 (strip_char 47 p)) \<noteq> [] \<and> last (split_on 47 (strip_char 47 p)) \<noteq> [])"
  using assms strip_char_ends [of 47 p]
  by (auto simp: parse_path_def join_split_on split_on_no_separator nonempty_split_on_strip
        spec_segments_def hd_split_on last_split_on route_def)

theorem parse_path_segments_witness:
  "parse_path plain_lib (request_for ''/echo//x'') = Inr ([S ''echo'', [], S ''x''], [])
   \<and> strip_char 47 (S ''/echo//x'') = S ''echo//x''
   \<and> join [47] [S ''echo'', [], S ''x''] = S ''echo//x''
   \<and> filter (\<lambda>s. s \<noteq> []) [S ''echo'', [], S ''x''] = spec_segments (S ''/echo//x'')"
  using parse_path_segments [OF urlparse_echo_x]
  by (simp add: S_def spec_segments_def strip_char_def plain_parse_qs_def)

section \<open>The configuration and the environment\<close>

lemma env_names_distinct [simp]:
  "S ''MOCK_HTTP_DELAY'' \<noteq> S ''MOCK_HTTP_STATUS''" "S ''MOCK_HTTP_STATUS'' \<noteq> S ''MOCK_HTTP_DELAY''"
  "S ''HOME'' \<noteq> S ''MOCK_HTTP_STATUS''" "S ''HOME'' \<noteq> S ''MOCK_HTTP_DELAY''"
  "S ''MOCK_HTTP_STATUS'' \<noteq> S ''HOME''" "S ''MOCK_HTTP_DELAY'' \<noteq> S ''HOME''"
  by (simp_all add: S_def)

lemma apply_default_delay_environ:
  assumes "environ P (S ''MOCK_HTTP_DELAY'') = env0 (S ''MOCK_HTTP_DELAY'')"
  shows "apply_default_delay L P
         = (case startup_default_delay L env0 of
              Inl m \<Rightarrow> raise (ValueError m)
            | Inr d \<Rightarrow> if float_gt d (Fin 0) then time_sleep d else ([], None))"
  using assms by (simp add: apply_default_delay_def startup_default_delay_def getenv_def)

lemma handle_default_environ:
  assumes "environ P (S ''MOCK_HTTP_STATUS'') = env0 (S ''MOCK_HTTP_STATUS'')"
  shows "handle_default L P
         = (case startup_default_status L env0 of
              Inl m \<Rightarrow> raise (ValueError m)
            | Inr st \<Rightarrow>
                ([Send (json_reply L st (dumps L (JObject
                   [(S ''message'', JStr (S ''painlessMesh Mock HTTP Server'')),
                    (S ''status'', JStr (S ''ok'')),
                    (S ''timestamp'', JFloat (time_time P))])))], None))"
  using assms
  by (simp add: handle_default_def startup_default_status_def getenv_def send_dumps split: sum.splits)

lemma handle_request_environ:
  assumes "environ P (S ''MOCK_HTTP_DELAY'') = env0 (S ''MOCK_HTTP_DELAY'')"
    and "environ P (S ''MOCK_HTTP_STATUS'') = env0 (S ''MOCK_HTTP_STATUS'')"
  shows "handle_request L P m req = handle_request L (P\<lparr>environ := env0\<rparr>) m req"
proof -
  have d: "apply_default_delay L (P\<lparr>environ := env0\<rparr>) = apply_default_delay L P"
    using assms(1) by (simp add: apply_default_delay_def getenv_def)
  have s: "handle_default L (P\<lparr>environ := env0\<rparr>) = handle_default L P"
    using assms(2) by (simp add: handle_default_def getenv_def cong: sum.case_cong)
  have h: "handle_health L (P\<lparr>environ := env0\<rparr>) = handle_health L P"
    by (simp add: handle_health_def)
  have "route L (P\<lparr>environ := env0\<rparr>) m req parts q body = route L P m req parts q body"
    for parts q body
    by (simp add: route_def s h)
  with d show ?thesis
    by (simp add: handle_request_def split: sum.splits)
qed

lemma default_503:
  "handle_default plain_lib (process_at [(S ''MOCK_HTTP_STATUS'', S ''503'')])
   = ([Send (json_reply plain_lib 503 (dumps plain_lib (JObject
        [(S ''message'', JStr (S ''painlessMesh Mock HTTP Server'')),
         (S ''status'', JStr (S ''ok'')),
         (S ''timestamp'', JFloat (Fin 1000))])))], None)"
  by (simp add: handle_default_def process_at_def env_of_def getenv_def plain_int_def py_int_503
        send_dumps)

lemma delay_unset_status:
  "float_of_str plain_lib (getenv (environ (process_at [(S ''MOCK_HTTP_STATUS'', S ''503'')]))
     (S ''MOCK_HTTP_DELAY'') (S ''0'')) = Inr (Fin 0)"
  by (simp add: process_at_def env_of_def getenv_def plain_float_def py_int_0)

lemma root_503:
  "handle_request plain_lib (process_at [(S ''MOCK_HTTP_STATUS'', S ''503'')]) GET (request_for ''/'')
   = ([Send (json_reply plain_lib 503 (dumps plain_lib (JObject
        [(S ''message'', JStr (S ''painlessMesh Mock HTTP Server'')),
         (S ''status'', JStr (S ''ok'')),
         (S ''timestamp'', JFloat (Fin 1000))])))], None)"
  using apply_default_delay_ok [OF delay_unset_status]
  by (simp add: handle_request_dispatch [OF parse_root request_body_GET] route_def default_503)

lemma root_delay_3:
  "slept (fst (handle_request plain_lib (process_at [(S ''MOCK_HTTP_DELAY'', S ''3'')]) GET
                 (request_for ''/''))) = [Fin 3]"
proof -
  have "handle_default plain_lib (process_at [(S ''MOCK_HTTP_DELAY'', S ''3'')])
     = ([Send (json_reply plain_lib 200 (dumps plain_lib (JObject
        [(S ''message'', JStr (S ''painlessMesh Mock HTTP Server'')),
         (S ''status'', JStr (S ''ok'')),
         (S ''timestamp'', JFloat (Fin 1000))])))], None)"
    by (simp add: handle_default_def process_at_def env_of_def getenv_def plain_int_def py_int_200
        send_dumps)
  then show ?thesis
    by (simp add: handle_request_dispatch [OF parse_root request_body_GET] route_def default_delay_3)
qed

text \<open>
  Claim C8, as the specification states it, fails: the handler calls \<open>os.getenv\<close> for
  \<open>MOCK_HTTP_DELAY\<close> and \<open>MOCK_HTTP_STATUS\<close> in every request, so nothing is captured when
  the process starts. A process started with neither variable set has the startup values
  200 and 0; once the environment of the process holds \<open>MOCK_HTTP_STATUS=503\<close> the
  default scenario answers 503, and once it holds \<open>MOCK_HTTP_DELAY=3\<close> a request sleeps
  3 seconds.
\<close>

theorem config_captured_at_startup_counterexample:
  "startup_default_status plain_lib (env_of []) = Inr 200
   \<and> map status_code (sent (fst (handle_request plain_lib
          (process_at [(S ''MOCK_HTTP_STATUS'', S ''503'')]) GET (request_for ''/'')))) = [503]
   \<and> startup_default_delay plain_lib (env_of []) = Inr (Fin 0)
   \<and> slept (fst (handle_request plain_lib
          (process_at [(S ''MOCK_HTTP_DELAY'', S ''3'')]) GET (request_for ''/''))) = [Fin 3]"
  by (simp add: startup_default_status_def startup_default_delay_def env_of_def getenv_def
        plain_int_def py_int_200 plain_float_def py_int_0 root_503 root_delay_3 json_reply_def)

text \<open>
  Claim C8, amended. The global delay and the default status are read from the
  environment variables \<open>MOCK_HTTP_DELAY\<close> and \<open>MOCK_HTTP_STATUS\<close> each time a request is
  handled. A request handled while the two variables have the values they had when the
  process started is served with the startup values: the delay applied and the status of
  the default scenario are those of the startup environment, and the whole run is the run
  under the startup environment.
\<close>

theorem environment_read_per_request:
  assumes "environ P (S ''MOCK_HTTP_DELAY'') = env0 (S ''MOCK_HTTP_DELAY'')"
    and "environ P (S ''MOCK_HTTP_STATUS'') = env0 (S ''MOCK_HTTP_STATUS'')"
  shows "apply_default_delay L P
           = (case startup_default_delay L env0 of
                Inl m \<Rightarrow> raise (ValueError m)
              | Inr d \<Rightarrow> if float_gt d (Fin 0) then time_sleep d else ([], None))
     \<and> handle_default L P
           = (case startup_default_status L env0 of
                Inl m \<Rightarrow> raise (ValueError m)
              | Inr st \<Rightarrow>
                  ([Send (json_reply L st (dumps L (JObject
                     [(S ''message'', JStr (S ''painlessMesh Mock HTTP Server'')),
                      (S ''status'', JStr (S ''ok'')),
                      (S ''timestamp'', JFloat (time_time P))])))], None))
     \<and> handle_request L P m req = handle_request L (P\<lparr>environ := env0\<rparr>) m req"
  using assms apply_default_delay_environ [of P env0 L] handle_default_environ [of P env0 L]
    handle_request_environ [of P env0 L m req]
  by simp

theorem environment_read_per_request_witness:
  "environ (process_at [(S ''MOCK_HTTP_STATUS'', S ''503'')]) (S ''MOCK_HTTP_DELAY'')
     = env_of [(S ''HOME'', S ''/root''), (S ''MOCK_HTTP_STATUS'', S ''503'')] (S ''MOCK_HTTP_DELAY'')
   \<and> environ (process_at [(S ''MOCK_HTTP_STATUS'', S ''503'')]) (S ''MOCK_HTTP_STATUS'')
     = env_of [(S ''HOME'', S ''/root''), (S ''MOCK_HTTP_STATUS'', S ''503'')] (S ''MOCK_HTTP_STATUS'')
   \<and> startup_default_status plain_lib
        (env_of [(S ''HOME'', S ''/root''), (S ''MOCK_HTTP_STATUS'', S ''503'')]) = Inr 503
   \<and> map status_code (sent (fst (handle_default plain_lib
        (process_at [(S ''MOCK_HTTP_STATUS'', S ''503'')])))) = [503]
   \<and> handle_request plain_lib (process_at [(S ''MOCK_HTTP_STATUS'', S ''503'')]) GET (request_for ''/'')
     = handle_request plain_lib
         ((process_at [(S ''MOCK_HTTP_STATUS'', S ''503'')])
            \<lparr>environ := env_of [(S ''HOME'', S ''/root''), (S ''MOCK_HTTP_STATUS'', S ''503'')]\<rparr>)
         GET (request_for ''/'')"
proof -
  have a: "environ (process_at [(S ''MOCK_HTTP_STATUS'', S ''503'')]) (S ''MOCK_HTTP_DELAY'')
     = env_of [(S ''HOME'', S ''/root''), (S ''MOCK_HTTP_STATUS'', S ''503'')] (S ''MOCK_HTTP_DELAY'')"
    by (simp add: process_at_def env_of_def)
  have b: "environ (process_at [(S ''MOCK_HTTP_STATUS'', S ''503'')]) (S ''MOCK_HTTP_STATUS'')
     = env_of [(S ''HOME'', S ''/root''), (S ''MOCK_HTTP_STATUS'', S ''503'')] (S ''MOCK_HTTP_STATUS'')"
    by (simp add: process_at_def env_of_def)
  have c: "startup_default_status plain_lib
        (env_of [(S ''HOME'', S ''/root''), (S ''MOCK_HTTP_STATUS'', S ''503'')]) = Inr 503"
    by (simp add: startup_default_status_def env_of_def getenv_def plain_int_def py_int_503)
  from environment_read_per_request [of "process_at [(S ''MOCK_HTTP_STATUS'', S ''503'')]" "env_of [(S ''HOME'', S ''/root''), (S ''MOCK_HTTP_STATUS'', S ''503'')]" plain_lib GET "request_for ''/''"] a b c
  show ?thesis
    by (simp add: json_reply_def)
qed

section \<open>The echo scenario\<close>

lemma read_body_no_header:
  "headers_get (headers req) (S ''Content-Length'') = None \<Longrightarrow> read_body L req = Inr []"
  by (simp add: read_body_def)

lemma read_body_header:
  "headers_get (headers req) (S ''Content-Length'') = Some v \<Longrightarrow> int_of_str L v = Inr n \<Longrightarrow>
   read_body L req = (if n > 0 then decode_utf8 L (take (nat n) (rfile req)) else Inr [])"
  by (simp add: read_body_def)

lemma handle_echo_body:
  "\<exists>j. handle_echo L now req m q body = ([Send (json_reply L 200 (dumps_indent L 2 j))], None)
       \<and> map_of (members j) (S ''body'') = Some (case body of None \<Rightarrow> JNull | Some b \<Rightarrow> JStr b)"
  unfolding handle_echo_def send_dumps_indent
  by (rule exI, rule conjI, rule refl) (simp add: S_def)

lemma content_length_5:
  "headers_get (headers (post_of ''/echo'' [(''content-length'', ''5'')] ''hello world''))
     (S ''Content-Length'') = Some (S ''5'')"
  by (simp add: headers_get_def post_of_def lower_def lower_char_def S_def)

lemma read_hello:
  "read_body plain_lib (post_of ''/echo'' [(''content-length'', ''5'')] ''hello world'')
   = Inr (S ''hello'')"
proof -
  have "decode_utf8 plain_lib (take (nat 5)
          (rfile (post_of ''/echo'' [(''content-length'', ''5'')] ''hello world''))) = Inr (S ''hello'')"
    by (simp add: post_of_def plain_decode_def S_def)
  with read_body_header [OF content_length_5 content_length_value_5] show ?thesis
    by simp
qed

text \<open>
  Claim C10. For every GET request routed to the echo scenario, the \<open>body\<close> member of
  the JSON response is \<open>null\<close>, since the request body is read for POST requests only;
  for every POST request routed to it whose body can be read, the \<open>body\<close> member is the
  string \<open>_read_body\<close> returns: the first \<open>Content-Length\<close> bytes of the request body
  decoded as UTF-8, and the empty string when the \<open>Content-Length\<close> header is absent or
  not positive.
\<close>

theorem echo_body_field:
  assumes "parse_path L req = Inr (path_parts, query_params)"
    and "path_parts \<noteq> []" and "path_parts ! 0 = S ''echo''"
    and "apply_default_delay L P = (t, None)"
  shows "(\<exists>j. handle_request L P GET req
               = (t @ [Send (json_reply L 200 (dumps_indent L 2 j))], None)
             \<and> map_of (members j) (S ''body'') = Some JNull)
     \<and> (\<forall>b. read_body L req = Inr b \<longrightarrow>
           (\<exists>j. handle_request L P POST req
                  = (t @ [Send (json_reply L 200 (dumps_indent L 2 j))], None)
                \<and> map_of (members j) (S ''body'') = Some (JStr b)))
     \<and> (headers_get (headers req) (S ''Content-Length'') = None \<longrightarrow> read_body L req = Inr [])
     \<and> (\<forall>v n. headers_get (headers req) (S ''Content-Length'') = Some v \<and> int_of_str L v = Inr n \<longrightarrow>
           read_body L req
             = (if n > 0 then decode_utf8 L (take (nat n) (rfile req)) else Inr []))"
proof (intro conjI allI impI)
  have get: "handle_request L P GET req
      = (t @ fst (handle_echo L (time_time P) req GET query_params None),
         snd (handle_echo L (time_time P) req GET query_params None))"
    using assms by (simp add: handle_request_dispatch [OF _ request_body_GET] route_echo)
  obtain j where "handle_echo L (time_time P) req GET query_params None
        = ([Send (json_reply L 200 (dumps_indent L 2 j))], None)"
      and "map_of (members j) (S ''body'') = Some JNull"
    using handle_echo_body [of L "time_time P" req GET query_params None] by auto
  with get show "\<exists>j. handle_request L P GET req
               = (t @ [Send (json_reply L 200 (dumps_indent L 2 j))], None)
             \<and> map_of (members j) (S ''body'') = Some JNull"
    by auto
next
  fix b
  assume rb: "read_body L req = Inr b"
  then have "request_body L POST req = Inr (Some b)"
    by (simp add: request_body_def)
  with assms have post: "handle_request L P POST req
      = (t @ fst (handle_echo L (time_time P) req POST query_params (Some b)),
         snd (handle_echo L (time_time P) req POST query_params (Some b)))"
    by (simp add: handle_request_dispatch route_echo)
  obtain j where "handle_echo L (time_time P) req POST query_params (Some b)
        = ([Send (json_reply L 200 (dumps_indent L 2 j))], None)"
      and "map_of (members j) (S ''body'') = Some (JStr b)"
    using handle_echo_body [of L "time_time P" req POST query_params "Some b"] by auto
  with post show "\<exists>j. handle_request L P POST req
                  = (t @ [Send (json_reply L 200 (dumps_indent L 2 j))], None)
                \<and> map_of (members j) (S ''body'') = Some (JStr b)"
    by auto
next
  assume "headers_get (headers req) (S ''Content-Length'') = None"
  then show "read_body L req = Inr []" by (rule read_body_no_header)
next
  fix v n
  assume "headers_get (headers req) (S ''Content-Length'') = Some v \<and> int_of_str L v = Inr n"
  then show "read_body L req
             = (if n > 0 then decode_utf8 L (take (nat n) (rfile req)) else Inr [])"
    by (simp add: read_body_header)
qed

theorem echo_body_field_witness:
  "(\<exists>j. handle_request plain_lib (process_at []) GET (request_for ''/echo'')
          = ([Send (json_reply plain_lib 200 (dumps_indent plain_lib 2 j))], None)
        \<and> map_of (members j) (S ''body'') = Some JNull)
   \<and> read_body plain_lib (post_of ''/echo'' [(''content-length'', ''5'')] ''hello world'')
       = Inr (S ''hello'')
   \<and> (\<exists>j. handle_request plain_lib (process_at []) POST
             (post_of ''/echo'' [(''content-length'', ''5'')] ''hello world'')
          = ([Send (json_reply plain_lib 200 (dumps_indent plain_lib 2 j))], None)
        \<and> map_of (members j) (S ''body'') = Some (JStr (S ''hello'')))"
proof -
  have ne: "[S ''echo''] \<noteq> []" and hd: "[S ''echo''] ! 0 = S ''echo''"
    by simp_all
  from echo_body_field [OF parse_echo ne hd default_delay_unset, THEN conjunct1]
  have 1: "\<exists>j. handle_request plain_lib (process_at []) GET (request_for ''/echo'')
          = ([Send (json_reply plain_lib 200 (dumps_indent plain_lib 2 j))], None)
        \<and> map_of (members j) (S ''body'') = Some JNull"
    by simp
  from echo_body_field [OF parse_echo_post ne hd default_delay_unset, THEN conjunct2, THEN conjunct1,
         THEN spec, of "S ''hello''"] read_hello
  have 2: "\<exists>j. handle_request plain_lib (process_at []) POST
             (post_of ''/echo'' [(''content-length'', ''5'')] ''hello world'')
          = ([Send (json_reply plain_lib 200 (dumps_indent plain_lib 2 j))], None)
        \<and> map_of (members j) (S ''body'') = Some (JStr (S ''hello''))"
    by simp
  from 1 2 read_hello show ?thesis by simp
qed

end
